theory Spec2Isabelle
  imports Complex_Main "HOL-Library.Char_ord" "HOL-Library.List_Lexorder"
begin

section \<open>Python values used by the weather service\<close>

text \<open>
  A Python \<open>str\<close> is modelled by \<open>string\<close>, the list of the bytes of its UTF-8 encoding.
  Substring search, splitting and prefix/suffix tests on valid UTF-8 agree with the same
  operations on code points. Character classes (\<open>isspace\<close>, \<open>isdigit\<close>) and case mapping
  are modelled on ASCII; characters beyond ASCII are neither whitespace, digits nor letters
  in this model.
\<close>

datatype py_error =
    IndexError
  | KeyError string
  | ValueError string

definition NL :: char where
  "NL = CHR 0x0A"

fun startswith :: "string \<Rightarrow> string \<Rightarrow> bool" where
  "startswith s [] = True"
| "startswith [] (p # ps) = False"
| "startswith (c # cs) (p # ps) = (c = p \<and> startswith cs ps)"

definition endswith :: "string \<Rightarrow> string \<Rightarrow> bool" where
  "endswith s p = startswith (rev s) (rev p)"

text \<open>\<open>contains sub s\<close> is Python's \<open>sub in s\<close>.\<close>

fun contains :: "string \<Rightarrow> string \<Rightarrow> bool" where
  "contains sub [] = (sub = [])"
| "contains sub (c # cs) = (startswith (c # cs) sub \<or> contains sub cs)"

text \<open>
  \<open>py_split sep s\<close> is \<open>s.split(sep)\<close> and \<open>split_once sep s\<close> is \<open>s.split(sep, 1)\<close>,
  for a separator that is not empty (the source only passes literal separators).
\<close>

fun py_split :: "string \<Rightarrow> string \<Rightarrow> string list" where
  "py_split sep [] = [[]]"
| "py_split sep (c # cs) =
     (if startswith (c # cs) sep then [] # py_split sep (drop (length sep - 1) cs)
      else (case py_split sep cs of
              [] \<Rightarrow> [[c]]
            | w # ws \<Rightarrow> (c # w) # ws))"

fun split_once :: "string \<Rightarrow> string \<Rightarrow> string list" where
  "split_once sep [] = [[]]"
| "split_once sep (c # cs) =
     (if startswith (c # cs) sep then [[], drop (length sep - 1) cs]
      else (case split_once sep cs of
              [] \<Rightarrow> [[c]]
            | w # ws \<Rightarrow> (c # w) # ws))"

definition is_space :: "char \<Rightarrow> bool" where
  "is_space c = (c \<in> set [CHR 0x09, CHR 0x0A, CHR 0x0B, CHR 0x0C, CHR 0x0D,
                           CHR 0x1C, CHR 0x1D, CHR 0x1E, CHR 0x1F, CHR 0x20])"

text \<open>\<open>split_ws [] s\<close> is \<open>s.split()\<close>: the maximal runs of non-whitespace.\<close>

fun split_ws :: "string \<Rightarrow> string \<Rightarrow> string list" where
  "split_ws acc [] = (if acc = [] then [] else [rev acc])"
| "split_ws acc (c # cs) =
     (if is_space c then (if acc = [] then split_ws [] cs else rev acc # split_ws [] cs)
      else split_ws (c # acc) cs)"

definition lstrip_chars :: "string \<Rightarrow> string \<Rightarrow> string" where
  "lstrip_chars chars s = dropWhile (\<lambda>c. c \<in> set chars) s"

definition rstrip_chars :: "string \<Rightarrow> string \<Rightarrow> string" where
  "rstrip_chars chars s = rev (dropWhile (\<lambda>c. c \<in> set chars) (rev s))"

definition strip_chars :: "string \<Rightarrow> string \<Rightarrow> string" where
  "strip_chars chars s = rstrip_chars chars (lstrip_chars chars s)"

definition py_strip :: "string \<Rightarrow> string" where
  "py_strip s = rev (dropWhile is_space (rev (dropWhile is_space s)))"

definition lower_char :: "char \<Rightarrow> char" where
  "lower_char c =
     (case map_of (zip ''ABCDEFGHIJKLMNOPQRSTUVWXYZ'' ''abcdefghijklmnopqrstuvwxyz'') c of
        None \<Rightarrow> c
      | Some d \<Rightarrow> d)"

definition upper_char :: "char \<Rightarrow> char" where
  "upper_char c =
     (case map_of (zip ''abcdefghijklmnopqrstuvwxyz'' ''ABCDEFGHIJKLMNOPQRSTUVWXYZ'') c of
        None \<Rightarrow> c
      | Some d \<Rightarrow> d)"

definition is_alpha :: "char \<Rightarrow> bool" where
  "is_alpha c = (c \<in> set ''ABCDEFGHIJKLMNOPQRSTUVWXYZabcdefghijklmnopqrstuvwxyz'')"

definition py_lower :: "string \<Rightarrow> string" where
  "py_lower s = map lower_char s"

text \<open>\<open>str.capitalize\<close>: the first character in upper case, the rest in lower case.\<close>

definition py_capitalize :: "string \<Rightarrow> string" where
  "py_capitalize s = (case s of [] \<Rightarrow> [] | c # cs \<Rightarrow> upper_char c # map lower_char cs)"

text \<open>
  \<open>str.title\<close>: a letter that follows a letter is put in lower case, any other letter in
  upper case. The flag says whether the previous character was a letter.
\<close>

fun title_from :: "bool \<Rightarrow> string \<Rightarrow> string" where
  "title_from prev [] = []"
| "title_from prev (c # cs) =
     (if is_alpha c then (if prev then lower_char c else upper_char c) # title_from True cs
      else c # title_from False cs)"

definition py_title :: "string \<Rightarrow> string" where
  "py_title s = title_from False s"

text \<open>\<open>py_join sep xs\<close> is \<open>sep.join(xs)\<close>.\<close>

fun py_join :: "string \<Rightarrow> string list \<Rightarrow> string" where
  "py_join sep [] = []"
| "py_join sep [x] = x"
| "py_join sep (x # y # ys) = x @ sep @ py_join sep (y # ys)"

text \<open>
  \<open>dict.fromkeys(tips)\<close> keeps the first occurrence of every key, in insertion order.
\<close>

fun dedupe :: "'a list \<Rightarrow> 'a list" where
  "dedupe [] = []"
| "dedupe (x # xs) = x # dedupe (filter (\<lambda>y. y \<noteq> x) xs)"

subsection \<open>Numbers and their text\<close>

definition is_digit :: "char \<Rightarrow> bool" where
  "is_digit c = (c \<in> set ''0123456789'')"

definition digit_val :: "char \<Rightarrow> int option" where
  "digit_val c = map_of (zip ''0123456789'' [0, 1, 2, 3, 4, 5, 6, 7, 8, 9]) c"

text \<open>
  A run of decimal digits in which single underscores may stand between two digits, as
  \<open>int\<close> and \<open>float\<close> accept it; \<open>None\<close> stands for the \<open>ValueError\<close> they raise.
\<close>

fun digits_value :: "int \<Rightarrow> string \<Rightarrow> int option" where
  "digits_value acc [] = Some acc"
| "digits_value acc (c # cs) =
     (if c = CHR ''_'' then
        (case cs of
           [] \<Rightarrow> None
         | d # ds \<Rightarrow> if is_digit d then digits_value acc cs else None)
      else (case digit_val c of
              None \<Rightarrow> None
            | Some v \<Rightarrow> digits_value (10 * acc + v) cs))"

definition digitpart :: "string \<Rightarrow> int option" where
  "digitpart s =
     (case s of
        [] \<Rightarrow> None
      | c # cs \<Rightarrow> if is_digit c then digits_value 0 s else None)"

definition split_sign :: "string \<Rightarrow> bool \<times> string" where
  "split_sign t =
     (case t of
        [] \<Rightarrow> (False, [])
      | c # r \<Rightarrow> if c = CHR ''-'' then (True, r)
                 else if c = CHR ''+'' then (False, r)
                 else (False, t))"

text \<open>
  \<open>py_int s\<close> is \<open>int(s)\<close> on a string: \<open>None\<close> is the \<open>ValueError\<close>. CPython's limit on the
  number of digits of an integer literal is not modelled.
\<close>

definition py_int :: "string \<Rightarrow> int option" where
  "py_int s =
     (case split_sign (py_strip s) of
        (neg, r) \<Rightarrow> map_option (\<lambda>n. if neg then - n else n) (digitpart r))"

text \<open>
  A Python \<open>float\<close> is modelled by the exact rational its decimal text denotes, or by one
  of the three special values; binary rounding, underflow and overflow are outside the
  model.
\<close>

datatype pyfloat = Finite rat | PosInf | NegInf | NaN

definition count_digits :: "string \<Rightarrow> nat" where
  "count_digits s = length (filter is_digit s)"

definition parse_mantissa :: "string \<Rightarrow> (int \<times> nat) option" where
  "parse_mantissa s =
     (case split_once ''.'' s of
        [i] \<Rightarrow> map_option (\<lambda>n. (n, 0)) (digitpart i)
      | [i, f] \<Rightarrow>
          if i = [] \<and> f = [] then None
          else (case (if i = [] then Some 0 else digitpart i,
                      if f = [] then Some 0 else digitpart f) of
                  (Some a, Some b) \<Rightarrow> Some (a * 10 ^ count_digits f + b, count_digits f)
                | _ \<Rightarrow> None)
      | _ \<Rightarrow> None)"

definition parse_exponent :: "string \<Rightarrow> int option" where
  "parse_exponent s =
     (case split_sign s of
        (neg, r) \<Rightarrow> map_option (\<lambda>n. if neg then - n else n) (digitpart r))"

definition scale10 :: "rat \<Rightarrow> int \<Rightarrow> rat" where
  "scale10 q e = (if 0 \<le> e then q * 10 ^ nat e else q / 10 ^ nat (- e))"

text \<open>The argument is already in lower case, so the exponent marker is \<open>e\<close>.\<close>

definition parse_number :: "string \<Rightarrow> rat option" where
  "parse_number l =
     (case split_once ''e'' l of
        [m] \<Rightarrow> map_option (\<lambda>(d, k). of_int d / 10 ^ k) (parse_mantissa m)
      | [m, x] \<Rightarrow>
          (case (parse_mantissa m, parse_exponent x) of
             (Some (d, k), Some e) \<Rightarrow> Some (scale10 (of_int d / 10 ^ k) e)
           | _ \<Rightarrow> None)
      | _ \<Rightarrow> None)"

text \<open>\<open>py_float s\<close> is \<open>float(s)\<close> on a string: \<open>None\<close> is the \<open>ValueError\<close>.\<close>

definition py_float :: "string \<Rightarrow> pyfloat option" where
  "py_float s =
     (case split_sign (py_strip s) of
        (neg, r) \<Rightarrow>
          (let l = py_lower r in
           if l = ''inf'' \<or> l = ''infinity'' then Some (if neg then NegInf else PosInf)
           else if l = ''nan'' then Some NaN
           else map_option (\<lambda>q. Finite (if neg then - q else q)) (parse_number l)))"

text \<open>Comparison and subtraction of floats; every comparison with \<open>NaN\<close> is false.\<close>

fun f_le :: "pyfloat \<Rightarrow> pyfloat \<Rightarrow> bool" where
  "f_le NaN y = False"
| "f_le x NaN = False"
| "f_le NegInf y = True"
| "f_le x PosInf = True"
| "f_le (Finite a) (Finite b) = (a \<le> b)"
| "f_le x y = False"

definition f_ge :: "pyfloat \<Rightarrow> pyfloat \<Rightarrow> bool" where
  "f_ge x y = f_le y x"

fun f_sub :: "pyfloat \<Rightarrow> pyfloat \<Rightarrow> pyfloat" where
  "f_sub (Finite a) (Finite b) = Finite (a - b)"
| "f_sub NaN y = NaN"
| "f_sub x NaN = NaN"
| "f_sub PosInf PosInf = NaN"
| "f_sub NegInf NegInf = NaN"
| "f_sub PosInf y = PosInf"
| "f_sub NegInf y = NegInf"
| "f_sub x PosInf = NegInf"
| "f_sub x NegInf = PosInf"

text \<open>
  The numbers of a provider response and what an f-string prints for them. \<open>JInt n\<close> is a
  JSON integer; \<open>JFloat m k\<close> is the float \<open>m / 10 ^ k\<close> whose \<open>repr\<close> is in positional
  notation (floats that \<open>repr\<close> prints with an exponent are outside the model).
\<close>

datatype json_num = JInt int | JFloat int nat

text \<open>The decimal digits of an integer that is not negative.\<close>

function digits :: "int \<Rightarrow> string" where
  "digits n =
     (if n < 10 then [''0123456789'' ! nat n]
      else digits (n div 10) @ [''0123456789'' ! nat (n mod 10)])"
  by pat_completeness auto
termination
  by (relation "measure nat") auto

definition int_str :: "int \<Rightarrow> string" where
  "int_str i = (if i < 0 then CHR ''-'' # digits (- i) else digits i)"

definition frac_digits :: "int \<Rightarrow> nat \<Rightarrow> string" where
  "frac_digits f k =
     (let ds = digits f;
          padded = replicate (k - length ds) CHR ''0'' @ ds;
          trimmed = rstrip_chars ''0'' padded
      in if trimmed = [] then ''0'' else trimmed)"

fun py_str :: "json_num \<Rightarrow> string" where
  "py_str (JInt i) = int_str i"
| "py_str (JFloat m k) =
     (if m < 0 then ''-'' else []) @
     digits (\<bar>m\<bar> div 10 ^ k) @ ''.'' @ frac_digits (\<bar>m\<bar> mod 10 ^ k) k"

section \<open>Weather Fetcher: units\<close>

definition deg :: string where
  "deg = [CHR 0xC2, CHR 0xB0]"

definition unit_symbol :: "string \<Rightarrow> string" where
  "unit_symbol units =
     (if units = ''metric'' then deg @ ''C''
      else if units = ''imperial'' then deg @ ''F''
      else ''K'')"

definition wind_unit :: "string \<Rightarrow> string" where
  "wind_unit units = (if units \<in> set [''metric'', ''kelvin''] then ''m/s'' else ''mph'')"

text \<open>\<open>None if units == "kelvin" else units\<close>\<close>

definition api_units :: "string \<Rightarrow> string option" where
  "api_units units = (if units = ''kelvin'' then None else Some units)"

text \<open>
  The query parameters of the provider request, in insertion order; a value \<open>None\<close> is
  Python's \<open>None\<close> (an absent \<open>location\<close> argument). The \<open>units\<close> entry is added under
  \<open>if api_units:\<close>, which is false for \<open>None\<close> and for the empty string.
\<close>

definition request_params ::
  "string option \<Rightarrow> string \<Rightarrow> string \<Rightarrow> (string \<times> string option) list" where
  "request_params location api_key units =
     [(''q'', location), (''appid'', Some api_key)] @
     (case api_units units of
        None \<Rightarrow> []
      | Some u \<Rightarrow> if u \<noteq> [] then [(''units'', Some u)] else [])"

section \<open>Provider payloads\<close>

text \<open>
  The JSON objects of the provider, with the keys the handlers read. A key that may be
  missing is an \<open>option\<close>; reading a missing key with \<open>d[k]\<close> raises \<open>KeyError\<close>, reading
  it with \<open>d.get(k, default)\<close> gives the default.
\<close>

record main_block =
  main_temp :: "json_num option"
  main_feels_like :: "json_num option"
  main_humidity :: "json_num option"
  main_pressure :: "json_num option"

record weather_item =
  description :: "string option"

record forecast_entry =
  dt_txt :: "string option"
  main :: "main_block option"
  weather :: "weather_item list option"

record city_block =
  name :: "string option"
  country :: "string option"

record forecast_data =
  city :: "city_block option"
  entry_list :: "forecast_entry list option"

record sys_block =
  sys_country :: "string option"

record wind_block =
  wind_speed :: "json_num option"

record current_data =
  cur_name :: "string option"
  sys :: "sys_block option"
  cur_main :: "main_block option"
  cur_weather :: "weather_item list option"
  cur_wind :: "wind_block option"
  cur_visibility :: "json_num option"

text \<open>
  What a request to the provider comes to: a parsed 2xx body, the \<open>HTTPStatusError\<close> of
  \<open>raise_for_status\<close> with the status code and the body text, or any other exception
  with its message.
\<close>

datatype 'a http_result =
    Response 'a
  | HTTPStatusError int string
  | OtherException string

definition need :: "string \<Rightarrow> 'a option \<Rightarrow> py_error + 'a" where
  "need k v = (case v of None \<Rightarrow> Inl (KeyError k) | Some x \<Rightarrow> Inr x)"

definition bind_err :: "py_error + 'a \<Rightarrow> ('a \<Rightarrow> py_error + 'b) \<Rightarrow> py_error + 'b" where
  "bind_err m f = (case m of Inl e \<Rightarrow> Inl e | Inr x \<Rightarrow> f x)"

text \<open>\<open>item xs i\<close> is \<open>xs[i]\<close> for an index that is not negative.\<close>

definition item :: "'a list \<Rightarrow> nat \<Rightarrow> py_error + 'a" where
  "item xs i = (if i < length xs then Inr (xs ! i) else Inl IndexError)"

text \<open>\<open>str(e)\<close> for the exceptions of the model.\<close>

fun error_str :: "py_error \<Rightarrow> string" where
  "error_str IndexError = ''list index out of range''"
| "error_str (KeyError k) = [CHR 0x27] @ k @ [CHR 0x27]"
| "error_str (ValueError m) = m"

section \<open>Forecast Reducer\<close>

text \<open>\<open>item.get('dt_txt', '')\<close>\<close>

definition get_dt_txt :: "forecast_entry \<Rightarrow> string" where
  "get_dt_txt e = (case dt_txt e of None \<Rightarrow> [] | Some s \<Rightarrow> s)"

text \<open>\<open>dt_txt.split(' ')[0] if ' ' in dt_txt else dt_txt\<close>\<close>

definition date_of :: "string \<Rightarrow> py_error + string" where
  "date_of dt = (if contains '' '' dt then item (py_split '' '' dt) 0 else Inr dt)"

text \<open>
  \<open>by_date.setdefault(date, []).append(item)\<close> on a dictionary kept as an association list
  in insertion order.
\<close>

fun setdefault_append :: "(string \<times> 'a list) list \<Rightarrow> string \<Rightarrow> 'a \<Rightarrow> (string \<times> 'a list) list" where
  "setdefault_append [] k v = [(k, [v])]"
| "setdefault_append ((k', vs) # rest) k v =
     (if k' = k then (k', vs @ [v]) # rest else (k', vs) # setdefault_append rest k v)"

fun group_by_date ::
  "(string \<times> forecast_entry list) list \<Rightarrow> forecast_entry list
   \<Rightarrow> py_error + (string \<times> forecast_entry list) list" where
  "group_by_date by_date [] = Inr by_date"
| "group_by_date by_date (e # es) =
     bind_err (date_of (get_dt_txt e))
       (\<lambda>date. group_by_date (setdefault_append by_date date e) es)"

text \<open>\<open>sorted(by_date.keys())[:5]\<close>\<close>

definition first_dates :: "(string \<times> forecast_entry list) list \<Rightarrow> string list" where
  "first_dates by_date = take 5 (sort (map fst by_date))"

definition is_noon :: "forecast_entry \<Rightarrow> bool" where
  "is_noon e = endswith (get_dt_txt e) ''12:00:00''"

definition pick_representative :: "forecast_entry list \<Rightarrow> py_error + forecast_entry" where
  "pick_representative entries =
     (let noon = filter is_noon entries
      in if noon \<noteq> [] then item noon 0
         else item entries (length entries div 2))"

definition calendar :: string where
  "calendar = [CHR 0xF0, CHR 0x9F, CHR 0x93, CHR 0x85]"

text \<open>The body of the loop after the representative is picked: one line of the forecast.\<close>

definition forecast_line :: "string \<Rightarrow> string \<Rightarrow> forecast_entry \<Rightarrow> py_error + string" where
  "forecast_line units date forecast =
     bind_err (need ''main'' (main forecast)) (\<lambda>m.
     bind_err (need ''temp'' (main_temp m)) (\<lambda>t.
     bind_err (need ''weather'' (weather forecast)) (\<lambda>ws.
     bind_err (item ws 0) (\<lambda>w.
     bind_err (need ''description'' (description w)) (\<lambda>d.
     bind_err (need ''main'' (main forecast)) (\<lambda>m'.
     bind_err (need ''humidity'' (main_humidity m')) (\<lambda>h.
       Inr (calendar @ '' '' @ date @ '': '' @ py_str t @ unit_symbol units @ '', ''
            @ py_title d @ '', Humidity: '' @ py_str h @ ''%'' @ [NL]))))))))"

fun forecast_loop ::
  "string \<Rightarrow> (string \<times> forecast_entry list) list \<Rightarrow> string list \<Rightarrow> string
   \<Rightarrow> py_error + string" where
  "forecast_loop units by_date [] forecast_text = Inr forecast_text"
| "forecast_loop units by_date (date # dates) forecast_text =
     bind_err (need date (map_of by_date date)) (\<lambda>entries.
     bind_err (pick_representative entries) (\<lambda>forecast.
     bind_err (forecast_line units date forecast) (\<lambda>line.
       forecast_loop units by_date dates (forecast_text @ line))))"

text \<open>
  The \<open>try\<close> body of \<open>_get_weather_forecast\<close> from the parsed response on: title line,
  grouping, the five first dates, one line per date.
\<close>

definition forecast_text_of :: "string \<Rightarrow> forecast_data \<Rightarrow> py_error + string" where
  "forecast_text_of units data =
     bind_err (need ''city'' (city data)) (\<lambda>c.
     bind_err (need ''name'' (name c)) (\<lambda>n.
     bind_err (need ''city'' (city data)) (\<lambda>c'.
     bind_err (need ''country'' (country c')) (\<lambda>k.
     bind_err (group_by_date [] (case entry_list data of None \<Rightarrow> [] | Some es \<Rightarrow> es))
       (\<lambda>by_date.
          forecast_loop units by_date (first_dates by_date)
            (''5-Day Weather Forecast for '' @ n @ '', '' @ k @ '':'' @ [NL, NL]))))))"

section \<open>Weather Fetcher: current weather\<close>

record weather_info =
  info_location :: string
  info_temperature :: json_num
  info_feels_like :: json_num
  info_description :: string
  info_humidity :: json_num
  info_wind_speed :: json_num
  info_pressure :: json_num
  info_visibility :: "json_num option"
  info_units :: string

text \<open>The dictionary \<open>weather_info\<close>, its entries evaluated in the order of the source.\<close>

definition extract_weather_info :: "string \<Rightarrow> current_data \<Rightarrow> py_error + weather_info" where
  "extract_weather_info units data =
     bind_err (need ''name'' (cur_name data)) (\<lambda>n.
     bind_err (need ''sys'' (sys data)) (\<lambda>s.
     bind_err (need ''country'' (sys_country s)) (\<lambda>c.
     bind_err (need ''main'' (cur_main data)) (\<lambda>m.
     bind_err (need ''temp'' (main_temp m)) (\<lambda>t.
     bind_err (need ''feels_like'' (main_feels_like m)) (\<lambda>f.
     bind_err (need ''weather'' (cur_weather data)) (\<lambda>ws.
     bind_err (item ws 0) (\<lambda>w.
     bind_err (need ''description'' (description w)) (\<lambda>d.
     bind_err (need ''humidity'' (main_humidity m)) (\<lambda>h.
     bind_err (need ''wind'' (cur_wind data)) (\<lambda>wd.
     bind_err (need ''speed'' (wind_speed wd)) (\<lambda>sp.
     bind_err (need ''pressure'' (main_pressure m)) (\<lambda>p.
       Inr \<lparr>info_location = n @ '', '' @ c,
            info_temperature = t,
            info_feels_like = f,
            info_description = py_title d,
            info_humidity = h,
            info_wind_speed = sp,
            info_pressure = p,
            info_visibility = cur_visibility data,
            info_units = units\<rparr>)))))))))))))"

definition thermometer :: string where
  "thermometer = [CHR 0xF0, CHR 0x9F, CHR 0x8C, CHR 0xA1, CHR 0xEF, CHR 0xB8, CHR 0x8F]"

definition sun_cloud :: string where
  "sun_cloud = [CHR 0xF0, CHR 0x9F, CHR 0x8C, CHR 0xA4, CHR 0xEF, CHR 0xB8, CHR 0x8F]"

definition droplet :: string where
  "droplet = [CHR 0xF0, CHR 0x9F, CHR 0x92, CHR 0xA7]"

definition gust :: string where
  "gust = [CHR 0xF0, CHR 0x9F, CHR 0x92, CHR 0xA8]"

definition down_button :: string where
  "down_button = [CHR 0xF0, CHR 0x9F, CHR 0x94, CHR 0xBD]"

definition eye :: string where
  "eye = [CHR 0xF0, CHR 0x9F, CHR 0x91, CHR 0x81, CHR 0xEF, CHR 0xB8, CHR 0x8F]"

text \<open>The f-string \<open>formatted_response\<close>; an absent visibility prints as \<open>N/A\<close>.\<close>

definition formatted_response :: "weather_info \<Rightarrow> string" where
  "formatted_response wi =
     ''Current Weather for '' @ info_location wi @ '':'' @ [NL]
     @ thermometer @ '' Temperature: '' @ py_str (info_temperature wi)
       @ unit_symbol (info_units wi) @ '' (feels like '' @ py_str (info_feels_like wi)
       @ unit_symbol (info_units wi) @ '')'' @ [NL]
     @ sun_cloud @ '' Conditions: '' @ info_description wi @ [NL]
     @ droplet @ '' Humidity: '' @ py_str (info_humidity wi) @ ''%'' @ [NL]
     @ gust @ '' Wind Speed: '' @ py_str (info_wind_speed wi) @ '' ''
       @ wind_unit (info_units wi) @ [NL]
     @ down_button @ '' Pressure: '' @ py_str (info_pressure wi) @ '' hPa'' @ [NL]
     @ eye @ '' Visibility: ''
       @ (case info_visibility wi of None \<Rightarrow> ''N/A'' | Some v \<Rightarrow> py_str v) @ '' meters''"

section \<open>Tool Service\<close>

record provider =
  weather_endpoint :: "(string \<times> string option) list \<Rightarrow> current_data http_result"
  forecast_endpoint :: "(string \<times> string option) list \<Rightarrow> forecast_data http_result"

text \<open>What an f-string prints for an argument that may be \<open>None\<close>.\<close>

definition arg_str :: "string option \<Rightarrow> string" where
  "arg_str v = (case v of None \<Rightarrow> ''None'' | Some s \<Rightarrow> s)"

definition not_found_text :: "string option \<Rightarrow> string" where
  "not_found_text location =
     ''Error: Location '' @ [CHR 0x27] @ arg_str location @ [CHR 0x27]
     @ '' not found. Please check the spelling and try again.''"

text \<open>
  \<open>_get_current_weather\<close>: the list of text blocks it returns. \<open>api_key\<close> is
  \<open>os.getenv("OPENWEATHER_API_KEY")\<close>; \<open>arguments\<close> maps argument names to strings.
\<close>

definition get_current_weather ::
  "string option \<Rightarrow> provider \<Rightarrow> (string \<rightharpoonup> string) \<Rightarrow> string list" where
  "get_current_weather api_key prov arguments =
     (let location = arguments ''location'';
          units = (case arguments ''units'' of None \<Rightarrow> ''metric'' | Some u \<Rightarrow> u)
      in case api_key of
           None \<Rightarrow> [''Error: OPENWEATHER_API_KEY environment variable not set'']
         | Some key \<Rightarrow>
             if key = [] then [''Error: OPENWEATHER_API_KEY environment variable not set'']
             else (case weather_endpoint prov (request_params location key units) of
                     Response data \<Rightarrow>
                       (case extract_weather_info units data of
                          Inl e \<Rightarrow> [''Error: '' @ error_str e]
                        | Inr wi \<Rightarrow> [formatted_response wi])
                   | HTTPStatusError code body \<Rightarrow>
                       if code = 404 then [not_found_text location]
                       else [''Error fetching weather data: '' @ int_str code @ '' - '' @ body]
                   | OtherException msg \<Rightarrow> [''Error: '' @ msg]))"

definition get_weather_forecast ::
  "string option \<Rightarrow> provider \<Rightarrow> (string \<rightharpoonup> string) \<Rightarrow> string list" where
  "get_weather_forecast api_key prov arguments =
     (let location = arguments ''location'';
          units = (case arguments ''units'' of None \<Rightarrow> ''metric'' | Some u \<Rightarrow> u)
      in case api_key of
           None \<Rightarrow> [''Error: OPENWEATHER_API_KEY environment variable not set'']
         | Some key \<Rightarrow>
             if key = [] then [''Error: OPENWEATHER_API_KEY environment variable not set'']
             else (case forecast_endpoint prov (request_params location key units) of
                     Response data \<Rightarrow>
                       (case forecast_text_of units data of
                          Inl e \<Rightarrow> [''Error: '' @ error_str e]
                        | Inr forecast_text \<Rightarrow> [forecast_text])
                   | HTTPStatusError code body \<Rightarrow>
                       if code = 404 then [not_found_text location]
                       else [''Error fetching forecast data: '' @ int_str code @ '' - '' @ body]
                   | OtherException msg \<Rightarrow> [''Error: '' @ msg]))"

text \<open>
  \<open>handle_call_tool\<close>: \<open>Inr\<close> is the returned list of text blocks, \<open>Inl\<close> the exception
  that leaves the handler.
\<close>

definition handle_call_tool ::
  "string option \<Rightarrow> provider \<Rightarrow> string \<Rightarrow> (string \<rightharpoonup> string) \<Rightarrow> py_error + string list" where
  "handle_call_tool api_key prov tool_name arguments =
     (if tool_name = ''get_weather'' then Inr (get_current_weather api_key prov arguments)
      else if tool_name = ''get_forecast'' then Inr (get_weather_forecast api_key prov arguments)
      else Inl (ValueError (''Unknown tool: '' @ tool_name)))"

text \<open>
  Modelled from the spec: the registration \<open>@self.server.call_tool()\<close> of the handler with
  the protocol server. It belongs to the MCP server library, which is not among the sources.
  By sections 4.5 and 7 of the spec the protocol call always succeeds at the transport level,
  and a failure of the Tool Service is converted to in-band text content of the result, never
  thrown across the protocol boundary. So the blocks the handler returns become the content
  of the result, and an exception that leaves the handler becomes an error result whose
  only text block is the message of the exception. \<open>Inl\<close> would be a fault at the
  transport level.
\<close>

record call_tool_result =
  content :: "string list"
  isError :: bool

definition call_tool ::
  "(string \<Rightarrow> (string \<rightharpoonup> string) \<Rightarrow> py_error + string list)
   \<Rightarrow> string \<Rightarrow> (string \<rightharpoonup> string) \<Rightarrow> py_error + call_tool_result" where
  "call_tool handler tool_name arguments =
     (case handler tool_name arguments of
        Inr blocks \<Rightarrow> Inr \<lparr>content = blocks, isError = False\<rparr>
      | Inl e \<Rightarrow> Inr \<lparr>content = [error_str e], isError = True\<rparr>)"

section \<open>Advice Rule Engine\<close>

text \<open>
  \<open>get = lambda key: next((l for l in lines if key in l), "")\<close>: the first line that
  contains the key, or the empty string.
\<close>

definition get :: "string list \<Rightarrow> string \<Rightarrow> string" where
  "get lines key = (case filter (contains key) lines of [] \<Rightarrow> [] | l # _ \<Rightarrow> l)"

text \<open>
  Inside a \<open>try\<close> block whose handler is \<open>except Exception: pass\<close> an exception leaves the
  parsed variable at \<open>None\<close>: \<open>caught\<close> turns the exception into \<open>None\<close>.
\<close>

definition caught :: "py_error + 'a \<Rightarrow> 'a option" where
  "caught r = (case r of Inl e \<Rightarrow> None | Inr x \<Rightarrow> Some x)"

text \<open>\<open>xs[-1]\<close>\<close>

definition item_last :: "'a list \<Rightarrow> py_error + 'a" where
  "item_last xs = (if xs = [] then Inl IndexError else Inr (last xs))"

definition parse_temp :: "string \<Rightarrow> pyfloat option" where
  "parse_temp tline =
     (if tline \<noteq> [] then
        Option.bind (caught (item (py_split ''Temperature:'' tline) 1)) (\<lambda>a.
        Option.bind (caught (item (py_split ''('' a) 0)) (\<lambda>b.
        Option.bind (caught (item (py_split deg (py_strip b)) 0)) (\<lambda>c.
          py_float c)))
      else None)"

definition parse_feels :: "string \<Rightarrow> pyfloat option" where
  "parse_feels tline =
     (if tline \<noteq> [] \<and> contains ''('' tline then
        Option.bind (caught (item_last (py_split ''feels like'' tline))) (\<lambda>a.
        Option.bind (caught (item (py_split deg (py_strip (rstrip_chars '')'' a))) 0)) (\<lambda>c.
          py_float c))
      else None)"

definition parse_hum :: "string \<Rightarrow> int option" where
  "parse_hum hline =
     (if hline \<noteq> [] then
        Option.bind (caught (item (py_split '':'' hline) 1)) (\<lambda>a.
          py_int (strip_chars ''% '' a))
      else None)"

definition parse_wind :: "string \<Rightarrow> pyfloat option" where
  "parse_wind wline =
     (if wline \<noteq> [] then
        Option.bind (caught (item (py_split '':'' wline) 1)) (\<lambda>a.
        Option.bind (caught (item (split_ws [] a) 0)) (\<lambda>b.
          py_float b))
      else None)"

definition parse_vis :: "string \<Rightarrow> int option" where
  "parse_vis vline = (if vline \<noteq> [] then py_int (filter is_digit vline) else None)"

definition dash :: string where
  "dash = [CHR 0xE2, CHR 0x80, CHR 0x94]"

definition tip_very_cold :: string where
  "tip_very_cold = [CHR 0xF0, CHR 0x9F, CHR 0xA5, CHR 0xB6]
     @ '' Very cold. Wear a heavy coat, gloves, and a hat.''"

definition tip_chilly :: string where
  "tip_chilly = [CHR 0xF0, CHR 0x9F, CHR 0xA7, CHR 0xA5]
     @ '' Chilly. A warm jacket and layers are recommended.''"

definition tip_hot :: string where
  "tip_hot = [CHR 0xF0, CHR 0x9F, CHR 0x94, CHR 0xA5]
     @ '' Hot. Stay hydrated, wear light clothing, and limit midday sun.''"

definition tip_warm :: string where
  "tip_warm = [CHR 0xF0, CHR 0x9F, CHR 0x8C, CHR 0x9E]
     @ '' Warm and comfortable. T'' @ [CHR 0xE2, CHR 0x80, CHR 0x91]
     @ ''shirt or light layers are fine.''"

definition tip_mild :: string where
  "tip_mild = sun_cloud @ '' Mild. A light layer should be enough.''"

definition tip_feels_colder :: string where
  "tip_feels_colder = [CHR 0xE2, CHR 0x86, CHR 0x98, CHR 0xEF, CHR 0xB8, CHR 0x8F]
     @ '' It feels colder than the actual temperature'' @ dash @ ''add an extra layer.''"

definition tip_feels_warmer :: string where
  "tip_feels_warmer = [CHR 0xE2, CHR 0x86, CHR 0x97, CHR 0xEF, CHR 0xB8, CHR 0x8F]
     @ '' It feels warmer than the actual temperature'' @ dash @ ''dress lightly.''"

definition tip_rain :: string where
  "tip_rain = [CHR 0xE2, CHR 0x98, CHR 0x94]
     @ '' Rain expected. Carry an umbrella or waterproof layer.''"

definition tip_snow :: string where
  "tip_snow = [CHR 0xE2, CHR 0x9D, CHR 0x84, CHR 0xEF, CHR 0xB8, CHR 0x8F]
     @ '' Snowy conditions. Wear insulated boots with good traction.''"

definition tip_humid :: string where
  "tip_humid = droplet @ '' Very humid'' @ dash @ ''expect it to feel muggy. Stay hydrated.''"

definition tip_dry :: string where
  "tip_dry = gust @ '' Dry air'' @ dash @ ''consider moisturizer and stay hydrated.''"

definition tip_breezy :: string where
  "tip_breezy = gust @ '' Breezy to windy'' @ dash
     @ ''secure hats/light items and consider a windbreaker.''"

definition tip_strong_wind :: string where
  "tip_strong_wind = [CHR 0xF0, CHR 0x9F, CHR 0x8C, CHR 0xAC, CHR 0xEF, CHR 0xB8, CHR 0x8F]
     @ '' Strong winds'' @ dash @ ''extra caution for outdoor activities.''"

definition tip_low_visibility :: string where
  "tip_low_visibility = eye @ '' Low visibility'' @ dash @ ''take care if driving.''"

definition tip_summary :: "string \<Rightarrow> string" where
  "tip_summary desc = [CHR 0xE2, CHR 0x84, CHR 0xB9, CHR 0xEF, CHR 0xB8, CHR 0x8F]
     @ '' Conditions: '' @ py_capitalize desc @ ''.''"

text \<open>The tips each block of the source appends, in the order of the source.\<close>

definition temperature_tips :: "pyfloat option \<Rightarrow> string list" where
  "temperature_tips temp =
     (case temp of
        None \<Rightarrow> []
      | Some t \<Rightarrow>
          if f_le t (Finite 0) then [tip_very_cold]
          else if f_le t (Finite 10) then [tip_chilly]
          else if f_ge t (Finite 30) then [tip_hot]
          else if f_ge t (Finite 22) then [tip_warm]
          else [tip_mild])"

definition feels_tips :: "pyfloat option \<Rightarrow> pyfloat option \<Rightarrow> string list" where
  "feels_tips temp feels =
     (case (temp, feels) of
        (Some t, Some f) \<Rightarrow>
          (let delta = f_sub f t
           in if f_le delta (Finite (- 3)) then [tip_feels_colder]
              else if f_ge delta (Finite 3) then [tip_feels_warmer]
              else [])
      | _ \<Rightarrow> [])"

definition precipitation_tips :: "string \<Rightarrow> string list" where
  "precipitation_tips desc =
     (if list_ex (\<lambda>k. contains k desc) [''rain'', ''drizzle'', ''thunder'', ''shower'']
      then [tip_rain]
      else if contains ''snow'' desc then [tip_snow]
      else [])"

definition humidity_tips :: "int option \<Rightarrow> string list" where
  "humidity_tips hum =
     (case hum of
        None \<Rightarrow> []
      | Some h \<Rightarrow> if h \<ge> 80 then [tip_humid] else if h \<le> 30 then [tip_dry] else [])"

definition wind_tips :: "pyfloat option \<Rightarrow> string list" where
  "wind_tips wind =
     (case wind of
        None \<Rightarrow> []
      | Some w \<Rightarrow> (if f_ge w (Finite 10) then [tip_breezy] else [])
                  @ (if f_ge w (Finite 17) then [tip_strong_wind] else []))"

definition visibility_tips :: "int option \<Rightarrow> string list" where
  "visibility_tips vis =
     (case vis of
        None \<Rightarrow> []
      | Some v \<Rightarrow> if v < 3000 then [tip_low_visibility] else [])"

definition summary_tips :: "string \<Rightarrow> string list" where
  "summary_tips desc = (if desc \<noteq> [] then [tip_summary desc] else [])"

text \<open>
  \<open>_rule_based_analysis\<close>. The list \<open>tips\<close> before deduplication is \<open>rule_tips\<close>; \<open>Inl\<close> is
  an exception that leaves the function. The only indexing outside a \<open>try\<close> block is the
  \<open>[-1]\<close> in the line that computes \<open>desc\<close>.
\<close>

definition rule_tips :: "string \<Rightarrow> string \<Rightarrow> py_error + string list" where
  "rule_tips weather_data user_query =
     (let lines = py_split [NL] weather_data;
          tline = get lines ''Temperature:'';
          temp = parse_temp tline;
          feels = parse_feels tline
      in bind_err (item_last (split_once '':'' (get lines ''Conditions:''))) (\<lambda>d.
         let desc = py_lower (py_strip d);
             hum = parse_hum (get lines ''Humidity:'');
             wind = parse_wind (get lines ''Wind Speed:'');
             vis = parse_vis (get lines ''Visibility:'')
         in Inr (temperature_tips temp @ feels_tips temp feels @ precipitation_tips desc
                 @ humidity_tips hum @ wind_tips wind @ visibility_tips vis
                 @ summary_tips desc)))"

definition rule_based_analysis :: "string \<Rightarrow> string \<Rightarrow> py_error + string" where
  "rule_based_analysis weather_data user_query =
     bind_err (rule_tips weather_data user_query) (\<lambda>tips. Inr (py_join [NL] (dedupe tips)))"

section \<open>Analysis Cascade\<close>

text \<open>The environment variables the cascade reads; \<open>None\<close> is an unset variable.\<close>

record environ =
  OPENAI_API_KEY :: "string option"
  OPENAI_MODEL :: "string option"
  HF_API_TOKEN :: "string option"
  HF_MODEL :: "string option"
  OLLAMA_HOST :: "string option"
  OLLAMA_MODEL :: "string option"

text \<open>\<open>os.getenv(name, default)\<close>\<close>

definition getenv :: "string option \<Rightarrow> string \<Rightarrow> string" where
  "getenv v dflt = (case v of None \<Rightarrow> dflt | Some s \<Rightarrow> s)"

text \<open>
  The three remote providers. Each takes its credential or host, the model name, the
  report and the query; each catches every exception itself and returns \<open>None\<close> then.
\<close>

record analysers =
  analyze_with_openai :: "string \<Rightarrow> string \<Rightarrow> string \<Rightarrow> string \<Rightarrow> string option"
  analyze_with_hf :: "string \<Rightarrow> string \<Rightarrow> string \<Rightarrow> string \<Rightarrow> string option"
  analyze_with_ollama :: "string \<Rightarrow> string \<Rightarrow> string \<Rightarrow> string \<Rightarrow> string option"

text \<open>\<open>if analysis: return analysis\<close>, else what follows.\<close>

definition return_if :: "string option \<Rightarrow> (py_error + string) \<Rightarrow> py_error + string" where
  "return_if analysis rest =
     (case analysis of
        None \<Rightarrow> rest
      | Some a \<Rightarrow> if a \<noteq> [] then Inr a else rest)"

definition analyze_weather_with_llm_async ::
  "environ \<Rightarrow> analysers \<Rightarrow> string \<Rightarrow> string \<Rightarrow> py_error + string" where
  "analyze_weather_with_llm_async env an weather_data user_query =
     (let openai_key = py_strip (getenv (OPENAI_API_KEY env) []);
          openai_model = py_strip (getenv (OPENAI_MODEL env) ''gpt-4o-mini'');
          hf_token = py_strip (getenv (HF_API_TOKEN env) []);
          hf_model = py_strip (getenv (HF_MODEL env) ''HuggingFaceH4/zephyr-7b-beta'');
          ollama_host = rstrip_chars ''/'' (getenv (OLLAMA_HOST env) ''http://localhost:11434'');
          ollama_model = getenv (OLLAMA_MODEL env) ''llama3.1:8b'';
          rules = rule_based_analysis weather_data user_query;
          step3 = (if ollama_host \<noteq> []
                   then return_if (analyze_with_ollama an ollama_host ollama_model
                                     weather_data user_query) rules
                   else rules);
          step2 = (if hf_token \<noteq> []
                   then return_if (analyze_with_hf an hf_token hf_model
                                     weather_data user_query) step3
                   else step3)
      in if openai_key \<noteq> []
         then return_if (analyze_with_openai an openai_key openai_model
                           weather_data user_query) step2
         else step2)"

section \<open>Sample inputs and auxiliary notions\<close>

text \<open>The date of an entry, as the grouping loop computes it, as a total function.\<close>

definition entry_date :: "forecast_entry \<Rightarrow> string" where
  "entry_date e = takeWhile (\<lambda>c. c \<noteq> CHR '' '') (get_dt_txt e)"

text \<open>
  The invariant of the grouping loop after the entries \<open>xs\<close>: the keys are the dates seen,
  each once, and each date maps to its entries in their order of arrival.
\<close>

definition groups_ok :: "(string \<times> forecast_entry list) list \<Rightarrow> forecast_entry list \<Rightarrow> bool" where
  "groups_ok bd xs \<longleftrightarrow>
     distinct (map fst bd) \<and> fst ` set bd = entry_date ` set xs \<and>
     (\<forall>d \<in> entry_date ` set xs. map_of bd d = Some (filter (\<lambda>e. entry_date e = d) xs))"

text \<open>
  The fields of an entry that a forecast line prints: \<open>forecast['main']['temp']\<close>,
  \<open>forecast['weather'][0]['description']\<close> and \<open>forecast['main']['humidity']\<close>, with
  \<open>None\<close> when a key on the way is missing or the weather list is empty. An entry is
  complete when it carries all three.
\<close>

definition entry_temp :: "forecast_entry \<Rightarrow> json_num option" where
  "entry_temp e = Option.bind (main e) main_temp"

definition entry_description :: "forecast_entry \<Rightarrow> string option" where
  "entry_description e =
     (case weather e of
        None \<Rightarrow> None
      | Some [] \<Rightarrow> None
      | Some (w # ws) \<Rightarrow> description w)"

definition entry_humidity :: "forecast_entry \<Rightarrow> json_num option" where
  "entry_humidity e = Option.bind (main e) main_humidity"

definition complete_entry :: "forecast_entry \<Rightarrow> bool" where
  "complete_entry e \<longleftrightarrow>
     entry_temp e \<noteq> None \<and> entry_description e \<noteq> None \<and> entry_humidity e \<noteq> None"

definition sample_entry :: "string \<Rightarrow> forecast_entry" where
  "sample_entry dt =
     \<lparr>dt_txt = Some dt,
      main = Some \<lparr>main_temp = Some (JFloat 185 1), main_feels_like = None,
                   main_humidity = Some (JInt 60), main_pressure = None\<rparr>,
      weather = Some [\<lparr>description = Some ''clear sky''\<rparr>]\<rparr>"

text \<open>Eight entries on seven dates, out of order; two dates have no noon entry.\<close>

definition sample_week :: "forecast_entry list" where
  "sample_week = map sample_entry
     [''2024-05-03 12:00:00'', ''2024-05-01 21:00:00'', ''2024-05-02 09:00:00'',
      ''2024-05-02 12:00:00'', ''2024-05-04 12:00:00'', ''2024-05-05 12:00:00'',
      ''2024-05-06 12:00:00'', ''2024-05-07 00:00:00'']"

text \<open>
  The report of the example: temperature 5, feels like 2, light rain, humidity 85 %, wind
  12, visibility 2500 m; once with the numbers as JSON integers, once as floats.
\<close>

definition canonical_report :: "string \<Rightarrow> weather_info" where
  "canonical_report units =
     \<lparr>info_location = ''London, GB'',
      info_temperature = JInt 5,
      info_feels_like = JInt 2,
      info_description = py_title ''light rain'',
      info_humidity = JInt 85,
      info_wind_speed = JInt 12,
      info_pressure = JInt 1012,
      info_visibility = Some (JInt 2500),
      info_units = units\<rparr>"

definition canonical_report_float :: "string \<Rightarrow> weather_info" where
  "canonical_report_float units =
     \<lparr>info_location = ''London, GB'',
      info_temperature = JFloat 50 1,
      info_feels_like = JFloat 20 1,
      info_description = py_title ''light rain'',
      info_humidity = JInt 85,
      info_wind_speed = JFloat 120 1,
      info_pressure = JInt 1012,
      info_visibility = Some (JInt 2500),
      info_units = units\<rparr>"

text \<open>A report in kelvin: 278.15 K, feels like 275.0 K.\<close>

definition kelvin_report :: weather_info where
  "kelvin_report =
     \<lparr>info_location = ''London, GB'',
      info_temperature = JFloat 27815 2,
      info_feels_like = JFloat 2750 1,
      info_description = py_title ''light rain'',
      info_humidity = JInt 85,
      info_wind_speed = JFloat 1205 2,
      info_pressure = JInt 1012,
      info_visibility = Some (JInt 2500),
      info_units = ''kelvin''\<rparr>"

text \<open>The fields the Rule Engine parses out of a report text.\<close>

definition parsed_fields ::
  "string \<Rightarrow> pyfloat option \<times> pyfloat option \<times> int option \<times> pyfloat option \<times> int option" where
  "parsed_fields weather_data =
     (let lines = py_split [NL] weather_data;
          tline = get lines ''Temperature:''
      in (parse_temp tline, parse_feels tline, parse_hum (get lines ''Humidity:''),
          parse_wind (get lines ''Wind Speed:''), parse_vis (get lines ''Visibility:'')))"

text \<open>A provider that is down, remote analysers that always answer, and sample arguments.\<close>

definition offline_provider :: provider where
  "offline_provider =
     \<lparr>weather_endpoint = (\<lambda>params. OtherException ''connection refused''),
      forecast_endpoint = (\<lambda>params. OtherException ''connection refused'')\<rparr>"

definition sample_current_data :: current_data where
  "sample_current_data =
     \<lparr>cur_name = Some ''Paris'',
      sys = Some \<lparr>sys_country = Some ''FR''\<rparr>,
      cur_main = Some \<lparr>main_temp = Some (JFloat 185 1), main_feels_like = Some (JFloat 179 1),
                       main_humidity = Some (JInt 60), main_pressure = Some (JInt 1015)\<rparr>,
      cur_weather = Some [\<lparr>description = Some ''clear sky''\<rparr>],
      cur_wind = Some \<lparr>wind_speed = Some (JFloat 31 1)\<rparr>,
      cur_visibility = Some (JInt 10000)\<rparr>"

definition sample_forecast_data :: forecast_data where
  "sample_forecast_data =
     \<lparr>city = Some \<lparr>name = Some ''Paris'', country = Some ''FR''\<rparr>,
      entry_list = Some sample_week\<rparr>"

text \<open>The sample week with the humidity missing from the entry of the first date.\<close>

definition sample_entry_no_humidity :: forecast_entry where
  "sample_entry_no_humidity =
     \<lparr>dt_txt = Some ''2024-05-01 21:00:00'',
      main = Some \<lparr>main_temp = Some (JFloat 185 1), main_feels_like = None,
                   main_humidity = None, main_pressure = None\<rparr>,
      weather = Some [\<lparr>description = Some ''clear sky''\<rparr>]\<rparr>"

definition malformed_forecast_data :: forecast_data where
  "malformed_forecast_data =
     \<lparr>city = Some \<lparr>name = Some ''Paris'', country = Some ''FR''\<rparr>,
      entry_list = Some (sample_week[1 := sample_entry_no_humidity])\<rparr>"

definition online_provider :: provider where
  "online_provider =
     \<lparr>weather_endpoint = (\<lambda>params. Response sample_current_data),
      forecast_endpoint = (\<lambda>params. Response sample_forecast_data)\<rparr>"

definition sample_arguments :: "string \<rightharpoonup> string" where
  "sample_arguments = map_of [(''location'', ''Paris, FR'')]"

definition eager_analysers :: analysers where
  "eager_analysers =
     \<lparr>analyze_with_openai = (\<lambda>k m w q. Some ''remote advice''),
      analyze_with_hf = (\<lambda>k m w q. Some ''remote advice''),
      analyze_with_ollama = (\<lambda>k m w q. Some ''remote advice'')\<rparr>"

definition bare_environ :: environ where
  "bare_environ =
     \<lparr>OPENAI_API_KEY = None, OPENAI_MODEL = None, HF_API_TOKEN = Some [], HF_MODEL = None,
      OLLAMA_HOST = Some [], OLLAMA_MODEL = None\<rparr>"

section \<open>Properties\<close>

text \<open>
  C8. For each of the units metric, imperial and kelvin: the displayed unit symbol is the
  degree sign followed by C, the degree sign followed by F, and K respectively; the wind-speed
  label is m/s for metric and kelvin and mph for imperial; and the provider request carries
  the units parameter metric or imperial, and carries no units parameter exactly when the
  units are kelvin.
\<close>

theorem unit_mapping_exhaustive:
  "unit_symbol ''metric'' = [CHR 0xC2, CHR 0xB0] @ ''C''
   \<and> unit_symbol ''imperial'' = [CHR 0xC2, CHR 0xB0] @ ''F''
   \<and> unit_symbol ''kelvin'' = ''K''
   \<and> wind_unit ''metric'' = ''m/s''
   \<and> wind_unit ''kelvin'' = ''m/s''
   \<and> wind_unit ''imperial'' = ''mph''
   \<and> map_of (request_params loc key ''metric'') ''units'' = Some (Some ''metric'')
   \<and> map_of (request_params loc key ''imperial'') ''units'' = Some (Some ''imperial'')
   \<and> map_of (request_params loc key ''kelvin'') ''units'' = None"
  by (simp add: unit_symbol_def wind_unit_def request_params_def api_units_def deg_def)

subsection \<open>Forecast Reducer\<close>

lemma py_split_nonempty: "py_split sep s \<noteq> []"
  by (induction sep s rule: py_split.induct) (auto split: list.splits)

lemma contains_single: "contains [c] s = (c \<in> set s)"
  by (induction s) auto

lemma py_split_single_hd:
  "\<exists>rest. py_split [c] s = takeWhile (\<lambda>x. x \<noteq> c) s # rest"
  by (induction s) (auto split: list.splits)

lemma date_of_total: "date_of dt = Inr (takeWhile (\<lambda>c. c \<noteq> CHR '' '') dt)"
proof (cases "CHR '' '' \<in> set dt")
  case True
  obtain rest where "py_split '' '' dt = takeWhile (\<lambda>x. x \<noteq> CHR '' '') dt # rest"
    using py_split_single_hd by blast
  with True show ?thesis by (simp add: date_of_def contains_single item_def)
next
  case False
  then have "date_of dt = Inr dt" by (simp add: date_of_def contains_single)
  moreover from False have "takeWhile (\<lambda>c. c \<noteq> CHR '' '') dt = dt" by (induction dt) auto
  ultimately show ?thesis by (simp only:)
qed

lemma date_of_entry: "date_of (get_dt_txt e) = Inr (entry_date e)"
  by (simp add: date_of_total entry_date_def)

lemma setdefault_keys: "fst ` set (setdefault_append bd k v) = insert k (fst ` set bd)"
  by (induction bd k v rule: setdefault_append.induct) auto

lemma setdefault_distinct: "distinct (map fst bd) \<Longrightarrow> distinct (map fst (setdefault_append bd k v))"
proof (induction bd k v rule: setdefault_append.induct)
  case (1 k v)
  then show ?case by simp
next
  case (2 k' vs rest k v)
  then show ?case using setdefault_keys[of rest k v] by auto
qed

lemma setdefault_lookup:
  "map_of (setdefault_append bd k v) d =
     (if d = k then Some ((case map_of bd k of None \<Rightarrow> [] | Some vs \<Rightarrow> vs) @ [v]) else map_of bd d)"
  by (induction bd k v rule: setdefault_append.induct) auto

lemma groups_ok_step:
  assumes "groups_ok bd xs"
  shows "groups_ok (setdefault_append bd (entry_date e) e) (xs @ [e])"
proof -
  let ?k = "entry_date e"
  let ?bd = "setdefault_append bd ?k e"
  from assms have d: "distinct (map fst bd)"
    and k: "fst ` set bd = entry_date ` set xs"
    and l: "\<And>d. d \<in> entry_date ` set xs \<Longrightarrow> map_of bd d = Some (filter (\<lambda>x. entry_date x = d) xs)"
    unfolding groups_ok_def by blast+
  have 1: "distinct (map fst ?bd)" using d by (rule setdefault_distinct)
  have 2: "fst ` set ?bd = entry_date ` set (xs @ [e])"
    using k by (simp add: setdefault_keys)
  have 3: "map_of ?bd d = Some (filter (\<lambda>x. entry_date x = d) (xs @ [e]))"
    if "d \<in> entry_date ` set (xs @ [e])" for d
  proof (cases "d = ?k")
    case True
    show ?thesis
    proof (cases "?k \<in> entry_date ` set xs")
      case True
      with l[OF True] \<open>d = ?k\<close> show ?thesis by (simp add: setdefault_lookup)
    next
      case False
      then have "map_of bd ?k = None" using k by (simp add: map_of_eq_None_iff)
      moreover from False have "filter (\<lambda>x. entry_date x = ?k) xs = []" by (induction xs) auto
      ultimately show ?thesis using \<open>d = ?k\<close> by (simp add: setdefault_lookup)
    qed
  next
    case False
    with that have "d \<in> entry_date ` set xs" by auto
    from l[OF this] False show ?thesis by (simp add: setdefault_lookup)
  qed
  show ?thesis unfolding groups_ok_def using 1 2 3 by blast
qed

lemma group_by_date_ok:
  "groups_ok bd xs \<Longrightarrow> \<exists>bd'. group_by_date bd es = Inr bd' \<and> groups_ok bd' (xs @ es)"
proof (induction es arbitrary: bd xs)
  case Nil
  then show ?case by simp
next
  case (Cons e es)
  from groups_ok_step[OF Cons.prems, of e] Cons.IH[of "setdefault_append bd (entry_date e) e" "xs @ [e]"]
  show ?case by (simp add: date_of_entry bind_err_def)
qed

lemma group_by_date_empty:
  "\<exists>bd. group_by_date [] es = Inr bd \<and> groups_ok bd es"
  using group_by_date_ok[of "[]" "[]" es] by (simp add: groups_ok_def)


lemma pick_representative_nonempty:
  assumes "g \<noteq> []"
  shows "\<exists>r. pick_representative g = Inr r \<and> r \<in> set g \<and>
           (if \<exists>x\<in>set g. is_noon x then is_noon r else r = g ! (length g div 2))"
proof (cases "filter is_noon g = []")
  case True
  then have no: "\<not> (\<exists>x\<in>set g. is_noon x)" by (simp add: filter_empty_conv)
  from assms have lt: "length g div 2 < length g" by (cases g) auto
  with True no show ?thesis by (simp add: pick_representative_def item_def)
next
  case False
  then obtain r rs where f: "filter is_noon g = r # rs" by (cases "filter is_noon g") auto
  then have "r \<in> set (filter is_noon g)" by simp
  then have "r \<in> set g" "is_noon r" by auto
  with f show ?thesis by (auto simp: pick_representative_def item_def)
qed

lemma forecast_loop_lines:
  "list_all2 (\<lambda>d (r, l). \<exists>g. map_of bd d = Some g \<and> pick_representative g = Inr r
                              \<and> forecast_line u d r = Inr l) ds rls
   \<Longrightarrow> forecast_loop u bd ds t = Inr (t @ concat (map snd rls))"
proof (induction ds arbitrary: rls t)
  case Nil
  then show ?case by simp
next
  case (Cons d ds)
  from Cons.prems obtain r l rest where rls: "rls = (r, l) # rest"
    and h: "\<exists>g. map_of bd d = Some g \<and> pick_representative g = Inr r \<and> forecast_line u d r = Inr l"
    and tl: "list_all2 (\<lambda>d (r, l). \<exists>g. map_of bd d = Some g \<and> pick_representative g = Inr r
                              \<and> forecast_line u d r = Inr l) ds rest"
    by (auto simp: list_all2_Cons1)
  from h obtain g where g: "map_of bd d = Some g" "pick_representative g = Inr r"
     "forecast_line u d r = Inr l" by blast
  from Cons.IH[OF tl, of "t @ l"] g rls show ?case
    by (simp add: bind_err_def need_def)
qed

lemma first_dates_sorted_list:
  assumes "groups_ok bd es"
  shows "first_dates bd = take 5 (sorted_list_of_set (entry_date ` set es))"
proof -
  from assms have d: "distinct (map fst bd)" and k: "set (map fst bd) = entry_date ` set es"
    by (simp_all add: groups_ok_def)
  have "sorted_list_of_set (set (map fst bd)) = sort (remdups (map fst bd))"
    by (rule sorted_list_of_set_sort_remdups)
  also have "remdups (map fst bd) = map fst bd"
    using d by (rule distinct_remdups_id)
  finally have "sort (map fst bd) = sorted_list_of_set (entry_date ` set es)"
    using k by (simp only:)
  then show ?thesis by (simp only: first_dates_def)
qed

lemma entry_date_filter:
  "filter (\<lambda>e. date_of (get_dt_txt e) = Inr d) es = filter (\<lambda>e. entry_date e = d) es"
  by (simp add: date_of_entry)

text \<open>
  The forecast text for the sample week: the first five dates in ascending order, the noon
  entry for a date that has one.
\<close>

lemma sample_forecast_text:
  "get_weather_forecast (Some ''key'') online_provider sample_arguments =
     [''5-Day Weather Forecast for Paris, FR:'' @ [NL, NL]
      @ calendar @ '' 2024-05-01: 18.5'' @ deg @ ''C, Clear Sky, Humidity: 60%'' @ [NL]
      @ calendar @ '' 2024-05-02: 18.5'' @ deg @ ''C, Clear Sky, Humidity: 60%'' @ [NL]
      @ calendar @ '' 2024-05-03: 18.5'' @ deg @ ''C, Clear Sky, Humidity: 60%'' @ [NL]
      @ calendar @ '' 2024-05-04: 18.5'' @ deg @ ''C, Clear Sky, Humidity: 60%'' @ [NL]
      @ calendar @ '' 2024-05-05: 18.5'' @ deg @ ''C, Clear Sky, Humidity: 60%'' @ [NL]]"
  by code_simp

text \<open>
  C3. For every non-empty list of one date's forecast entries, the representative is an
  entry of the list whose timestamp ends in 12:00:00 if the list has such an entry, and
  otherwise the entry at index \<open>length div 2\<close>; a list of three entries none of which is a
  noon entry yields the entry at index 1.
\<close>

theorem pick_representative_choice:
  "(entries \<noteq> [] \<longrightarrow>
      (\<exists>e. pick_representative entries = Inr e \<and> e \<in> set entries \<and>
           (if \<exists>x\<in>set entries. endswith (get_dt_txt x) ''12:00:00''
            then endswith (get_dt_txt e) ''12:00:00''
            else e = entries ! (length entries div 2))))
   \<and> (\<not> endswith (get_dt_txt a) ''12:00:00'' \<and> \<not> endswith (get_dt_txt b) ''12:00:00''
        \<and> \<not> endswith (get_dt_txt c) ''12:00:00''
      \<longrightarrow> pick_representative [a, b, c] = Inr b)"
proof (intro conjI impI)
  assume "entries \<noteq> []"
  from pick_representative_nonempty[OF this, unfolded is_noon_def]
  show "\<exists>e. pick_representative entries = Inr e \<and> e \<in> set entries \<and>
           (if \<exists>x\<in>set entries. endswith (get_dt_txt x) ''12:00:00''
            then endswith (get_dt_txt e) ''12:00:00''
            else e = entries ! (length entries div 2))" .
next
  assume "\<not> endswith (get_dt_txt a) ''12:00:00'' \<and> \<not> endswith (get_dt_txt b) ''12:00:00''
        \<and> \<not> endswith (get_dt_txt c) ''12:00:00''"
  then show "pick_representative [a, b, c] = Inr b"
    by (simp add: pick_representative_def is_noon_def item_def)
qed

theorem pick_representative_choice_witness:
  "[sample_entry ''2024-05-02 09:00:00'', sample_entry ''2024-05-02 12:00:00''] \<noteq> []
   \<and> pick_representative
         [sample_entry ''2024-05-02 09:00:00'', sample_entry ''2024-05-02 12:00:00'']
       = Inr (sample_entry ''2024-05-02 12:00:00'')
   \<and> pick_representative
         [sample_entry ''2024-05-01 03:00:00'', sample_entry ''2024-05-01 18:00:00'',
          sample_entry ''2024-05-01 21:00:00'']
       = Inr (sample_entry ''2024-05-01 18:00:00'')"
proof -
  have n1: "\<not> endswith (get_dt_txt (sample_entry ''2024-05-01 03:00:00'')) ''12:00:00''"
    by code_simp
  have n2: "\<not> endswith (get_dt_txt (sample_entry ''2024-05-01 18:00:00'')) ''12:00:00''"
    by code_simp
  have n3: "\<not> endswith (get_dt_txt (sample_entry ''2024-05-01 21:00:00'')) ''12:00:00''"
    by code_simp
  have n4: "\<not> endswith (get_dt_txt (sample_entry ''2024-05-02 09:00:00'')) ''12:00:00''"
    by code_simp
  have y: "endswith (get_dt_txt (sample_entry ''2024-05-02 12:00:00'')) ''12:00:00''"
    by code_simp
  from n4 y have ne: "sample_entry ''2024-05-02 12:00:00'' \<noteq> sample_entry ''2024-05-02 09:00:00''"
    by auto
  show ?thesis
    using pick_representative_choice
            [of "[sample_entry ''2024-05-02 09:00:00'', sample_entry ''2024-05-02 12:00:00'']"
                "sample_entry ''2024-05-01 03:00:00''" "sample_entry ''2024-05-01 18:00:00''"
                "sample_entry ''2024-05-01 21:00:00''"]
          n1 n2 n3 n4 y ne
    by auto
qed

lemma reduce_seven_dates:
  assumes "card ((\<lambda>e. date_of (get_dt_txt e)) ` set es) = 7"
  shows "\<exists>by_date days.
     group_by_date [] es = Inr by_date \<and>
     map fst days = first_dates by_date \<and>
     length days = 5 \<and>
     map fst days = take 5 (sorted_list_of_set {d. \<exists>e\<in>set es. date_of (get_dt_txt e) = Inr d}) \<and>
     sorted (map fst days) \<and> distinct (map fst days) \<and>
     (\<forall>(d, r) \<in> set days.
        r \<in> set es \<and> date_of (get_dt_txt r) = Inr d \<and>
        pick_representative (filter (\<lambda>e. date_of (get_dt_txt e) = Inr d) es) = Inr r \<and>
        ((\<exists>e\<in>set es. date_of (get_dt_txt e) = Inr d \<and> endswith (get_dt_txt e) ''12:00:00'')
           \<longrightarrow> endswith (get_dt_txt r) ''12:00:00'')) \<and>
     (\<forall>ls t. list_all2 (\<lambda>(d, r) l. forecast_line units d r = Inr l) days ls \<longrightarrow>
        forecast_loop units by_date (first_dates by_date) t = Inr (t @ concat ls))"
proof -
  let ?D = "entry_date ` set es"
  have img: "(\<lambda>e. date_of (get_dt_txt e)) ` set es = Inr ` ?D"
    by (auto simp: date_of_entry image_iff)
  have "card (Inr ` ?D :: (py_error + string) set) = card ?D"
    by (rule card_image) simp
  with assms img have card7: "card ?D = 7" by simp
  have Deq: "{d. \<exists>e\<in>set es. date_of (get_dt_txt e) = Inr d} = ?D"
    by (auto simp: date_of_entry)
  obtain bd where bd: "group_by_date [] es = Inr bd" and ok: "groups_ok bd es"
    using group_by_date_empty by blast
  let ?dates = "first_dates bd"
  have dates: "?dates = take 5 (sorted_list_of_set ?D)"
    using ok by (rule first_dates_sorted_list)
  have len: "length ?dates = 5" using card7 by (simp add: dates)
  have srt: "sorted ?dates" unfolding dates by simp
  have dst: "distinct ?dates" unfolding dates by simp
  have sub: "set ?dates \<subseteq> ?D"
  proof -
    have "set ?dates \<subseteq> set (sorted_list_of_set ?D)" unfolding dates by (rule set_take_subset)
    then show ?thesis by simp
  qed
  let ?grp = "\<lambda>d. filter (\<lambda>e. entry_date e = d) es"
  let ?rep = "\<lambda>d. projr (pick_representative (?grp d))"
  let ?days = "map (\<lambda>d. (d, ?rep d)) ?dates"
  have rep: "pick_representative (?grp d) = Inr (?rep d) \<and> ?rep d \<in> set (?grp d) \<and>
           ((\<exists>x\<in>set (?grp d). is_noon x) \<longrightarrow> is_noon (?rep d))" if "d \<in> ?D" for d
  proof -
    from that have "?grp d \<noteq> []" by (auto simp: filter_empty_conv)
    from pick_representative_nonempty[OF this] obtain r where
      r: "pick_representative (?grp d) = Inr r" "r \<in> set (?grp d)"
         "(\<exists>x\<in>set (?grp d). is_noon x) \<longrightarrow> is_noon r"
      by (auto split: if_splits)
    then show ?thesis by simp
  qed
  have lookup: "map_of bd d = Some (?grp d)" if "d \<in> ?D" for d
    using ok that unfolding groups_ok_def by blast
  have fst_days: "map fst ?days = ?dates" by (simp add: comp_def)
  have each: "\<forall>(d, r) \<in> set ?days.
        r \<in> set es \<and> date_of (get_dt_txt r) = Inr d \<and>
        pick_representative (filter (\<lambda>e. date_of (get_dt_txt e) = Inr d) es) = Inr r \<and>
        ((\<exists>e\<in>set es. date_of (get_dt_txt e) = Inr d \<and> endswith (get_dt_txt e) ''12:00:00'')
           \<longrightarrow> endswith (get_dt_txt r) ''12:00:00'')"
  proof (clarify, intro conjI impI)
    fix d r assume "(d, r) \<in> set ?days"
    then have d: "d \<in> set ?dates" and r: "r = ?rep d" by auto
    from d sub have dD: "d \<in> ?D" by blast
    note R = rep[OF dD]
    from R r show "r \<in> set es" by simp
    from R r show "date_of (get_dt_txt r) = Inr d" by (simp add: date_of_entry)
    from R r show "pick_representative (filter (\<lambda>e. date_of (get_dt_txt e) = Inr d) es) = Inr r"
      by (simp add: entry_date_filter)
    assume "\<exists>e\<in>set es. date_of (get_dt_txt e) = Inr d \<and> endswith (get_dt_txt e) ''12:00:00''"
    then have "\<exists>x\<in>set (?grp d). is_noon x" by (auto simp: date_of_entry is_noon_def)
    with R r show "endswith (get_dt_txt r) ''12:00:00''" by (simp add: is_noon_def)
  qed
  have loop: "forecast_loop units bd ?dates t = Inr (t @ concat ls)"
    if h: "list_all2 (\<lambda>(d, r) l. forecast_line units d r = Inr l) ?days ls" for ls t
  proof -
    let ?rls = "zip (map snd ?days) ls"
    from h have ll: "length ls = length ?dates" by (simp add: list_all2_lengthD[symmetric])
    have "list_all2 (\<lambda>d (r, l). \<exists>g. map_of bd d = Some g \<and> pick_representative g = Inr r
                              \<and> forecast_line units d r = Inr l) ?dates ?rls"
    proof (rule list_all2_all_nthI)
      show "length ?dates = length ?rls" using ll by simp
    next
      fix n assume n: "n < length ?dates"
      let ?d = "?dates ! n"
      from n sub have dD: "?d \<in> ?D" by (meson nth_mem subsetD)
      from h n have "forecast_line units ?d (?rep ?d) = Inr (ls ! n)"
        by (auto simp: list_all2_conv_all_nth)
      with rep[OF dD] lookup[OF dD] n ll
      show "(case ?rls ! n of (r, l) \<Rightarrow> \<exists>g. map_of bd ?d = Some g \<and> pick_representative g = Inr r
                              \<and> forecast_line units ?d r = Inr l)"
        by simp
    qed
    from forecast_loop_lines[OF this, of t] ll show ?thesis by (simp add: map_snd_zip)
  qed
  have len_days: "length ?days = 5" using len by simp
  have fst_set: "map fst ?days =
      take 5 (sorted_list_of_set {d. \<exists>e\<in>set es. date_of (get_dt_txt e) = Inr d})"
    using fst_days dates by (simp only: Deq)
  have srt_days: "sorted (map fst ?days)" using srt by (simp only: fst_days)
  have dst_days: "distinct (map fst ?days)" using dst by (simp only: fst_days)
  have loop_all: "\<forall>ls t. list_all2 (\<lambda>(d, r) l. forecast_line units d r = Inr l) ?days ls \<longrightarrow>
        forecast_loop units bd (first_dates bd) t = Inr (t @ concat ls)"
    using loop by blast
  from bd fst_days len_days fst_set srt_days dst_days each loop_all
  show ?thesis by blast
qed

lemma forecast_line_complete:
  assumes "entry_temp r = Some t" and "entry_description r = Some desc"
    and "entry_humidity r = Some h"
  shows "forecast_line units d r =
           Inr (calendar @ '' '' @ d @ '': '' @ py_str t @ unit_symbol units @ '', ''
                @ py_title desc @ '', Humidity: '' @ py_str h @ ''%'' @ [NL])"
proof -
  from assms(1) obtain m where m: "main r = Some m" "main_temp m = Some t"
    by (auto simp: entry_temp_def split: Option.bind_splits)
  from assms(3) m have hm: "main_humidity m = Some h"
    by (auto simp: entry_humidity_def)
  from assms(2) obtain w ws where w: "weather r = Some (w # ws)" "description w = Some desc"
    by (auto simp: entry_description_def split: option.splits list.splits)
  from m hm w show ?thesis
    by (simp add: forecast_line_def bind_err_def need_def item_def)
qed

text \<open>A payload in which the entry picked for a date lacks a field gives the error text.\<close>

lemma malformed_forecast_error:
  "card ((\<lambda>e. date_of (get_dt_txt e)) ` set (sample_week[1 := sample_entry_no_humidity])) = 7
   \<and> forecast_text_of ''metric'' malformed_forecast_data = Inl (KeyError ''humidity'')"
  by code_simp

text \<open>
  C4. For every forecast payload that names its city and country, whose entries each carry
  a temperature, a description and a humidity, and whose entries span 7 distinct dates, the
  forecast text is the title followed by exactly 5 lines. The lines are for the 5 least of
  the distinct dates, in ascending order and without repetition. The line of a date prints
  the temperature, description and humidity of the entry that \<open>pick_representative\<close> returns
  for the entries of that date, which is a noon entry when the date has one. The handler
  returns this text as its only block when the provider answers with the payload.
\<close>

theorem forecast_seven_dates:
  assumes "city data = Some c" and "name c = Some n" and "country c = Some k"
    and "entry_list data = Some es"
    and "\<forall>e\<in>set es. complete_entry e"
    and "card ((\<lambda>e. date_of (get_dt_txt e)) ` set es) = 7"
  shows "\<exists>days forecast_text.
     length days = 5 \<and>
     map fst days = take 5 (sorted_list_of_set {d. \<exists>e\<in>set es. date_of (get_dt_txt e) = Inr d}) \<and>
     sorted (map fst days) \<and> distinct (map fst days) \<and>
     (\<forall>(d, t, desc, h) \<in> set days.
        \<exists>r\<in>set es.
          date_of (get_dt_txt r) = Inr d \<and>
          pick_representative (filter (\<lambda>e. date_of (get_dt_txt e) = Inr d) es) = Inr r \<and>
          ((\<exists>e\<in>set es. date_of (get_dt_txt e) = Inr d \<and> endswith (get_dt_txt e) ''12:00:00'')
             \<longrightarrow> endswith (get_dt_txt r) ''12:00:00'') \<and>
          entry_temp r = Some t \<and> entry_description r = Some desc \<and> entry_humidity r = Some h) \<and>
     forecast_text =
       ''5-Day Weather Forecast for '' @ n @ '', '' @ k @ '':'' @ [NL, NL]
       @ concat (map (\<lambda>(d, t, desc, h).
                        calendar @ '' '' @ d @ '': '' @ py_str t @ unit_symbol units @ '', ''
                        @ py_title desc @ '', Humidity: '' @ py_str h @ ''%'' @ [NL]) days) \<and>
     forecast_text_of units data = Inr forecast_text \<and>
     (\<forall>key prov arguments.
        key \<noteq> [] \<and> arguments ''units'' = Some units \<and>
        forecast_endpoint prov (request_params (arguments ''location'') key units) = Response data
        \<longrightarrow> get_weather_forecast (Some key) prov arguments = [forecast_text])"
proof -
  define LINE where "LINE = (\<lambda>(d, t, desc, h).
                        calendar @ '' '' @ d @ '': '' @ py_str t @ unit_symbol units @ '', ''
                        @ py_title desc @ '', Humidity: '' @ py_str h @ ''%'' @ [NL])"
  define title where "title = ''5-Day Weather Forecast for '' @ n @ '', '' @ k @ '':'' @ [NL, NL]"
  define ROW where "ROW = (\<lambda>(d :: string, r).
     (d, the (entry_temp r), the (entry_description r), the (entry_humidity r)))"
  from reduce_seven_dates[OF assms(6), of units]
  obtain bd days0 where all: "group_by_date [] es = Inr bd \<and>
     map fst days0 = first_dates bd \<and>
     length days0 = 5 \<and>
     map fst days0 = take 5 (sorted_list_of_set {d. \<exists>e\<in>set es. date_of (get_dt_txt e) = Inr d}) \<and>
     sorted (map fst days0) \<and> distinct (map fst days0) \<and>
     (\<forall>(d, r) \<in> set days0.
        r \<in> set es \<and> date_of (get_dt_txt r) = Inr d \<and>
        pick_representative (filter (\<lambda>e. date_of (get_dt_txt e) = Inr d) es) = Inr r \<and>
        ((\<exists>e\<in>set es. date_of (get_dt_txt e) = Inr d \<and> endswith (get_dt_txt e) ''12:00:00'')
           \<longrightarrow> endswith (get_dt_txt r) ''12:00:00'')) \<and>
     (\<forall>ls t. list_all2 (\<lambda>(d, r) l. forecast_line units d r = Inr l) days0 ls \<longrightarrow>
        forecast_loop units bd (first_dates bd) t = Inr (t @ concat ls))"
    by (elim exE) (rule that)
  note bd = all[THEN conjunct1]
  note r1 = all[THEN conjunct2]
  note r2 = r1[THEN conjunct2]
  note len0 = r2[THEN conjunct1]
  note r3 = r2[THEN conjunct2]
  note dates0 = r3[THEN conjunct1]
  note r4 = r3[THEN conjunct2]
  note srt0 = r4[THEN conjunct1]
  note r5 = r4[THEN conjunct2]
  note dst0 = r5[THEN conjunct1]
  note r6 = r5[THEN conjunct2]
  note each0 = r6[THEN conjunct1]
  note loop0 = r6[THEN conjunct2]
  define days where "days = map ROW days0"
  have each1: "r \<in> set es \<and> date_of (get_dt_txt r) = Inr d \<and>
        pick_representative (filter (\<lambda>e. date_of (get_dt_txt e) = Inr d) es) = Inr r \<and>
        ((\<exists>e\<in>set es. date_of (get_dt_txt e) = Inr d \<and> endswith (get_dt_txt e) ''12:00:00'')
           \<longrightarrow> endswith (get_dt_txt r) ''12:00:00'')" if "(d, r) \<in> set days0" for d r
    using bspec[OF each0 that] by simp
  have fields: "entry_temp r = Some (the (entry_temp r))
      \<and> entry_description r = Some (the (entry_description r))
      \<and> entry_humidity r = Some (the (entry_humidity r))" if "r \<in> set es" for r
    using bspec[OF assms(5) that] by (auto simp: complete_entry_def)
  have line0: "forecast_line units d r = Inr (LINE (ROW (d, r)))" if "(d, r) \<in> set days0" for d r
  proof -
    from each1[OF that] have "r \<in> set es" by (rule conjunct1)
    note f = fields[OF this]
    have "forecast_line units d r =
           Inr (calendar @ '' '' @ d @ '': '' @ py_str (the (entry_temp r)) @ unit_symbol units
                @ '', '' @ py_title (the (entry_description r)) @ '', Humidity: ''
                @ py_str (the (entry_humidity r)) @ ''%'' @ [NL])"
      by (rule forecast_line_complete) (use f in blast)+
    then show ?thesis by (simp add: LINE_def ROW_def)
  qed
  have "\<forall>x\<in>set days0. (\<lambda>(d, r) l. forecast_line units d r = Inr l) x (LINE (ROW x))"
  proof
    fix x assume x: "x \<in> set days0"
    obtain d r where xe: "x = (d, r)" by (cases x)
    from line0[of d r] x xe show "(\<lambda>(d, r) l. forecast_line units d r = Inr l) x (LINE (ROW x))"
      by simp
  qed
  then have all2: "list_all2 (\<lambda>(d, r) l. forecast_line units d r = Inr l) days0
                (map (\<lambda>x. LINE (ROW x)) days0)"
    by (simp only: list_all2_map2 list_all2_same)
  from loop0[THEN spec, THEN spec, THEN mp, OF all2]
  have loop: "forecast_loop units bd (first_dates bd) title
                = Inr (title @ concat (map (\<lambda>x. LINE (ROW x)) days0))" .
  have cc: "map (\<lambda>x. LINE (ROW x)) days0 = map LINE days"
    by (simp add: days_def comp_def)
  have ftext: "forecast_text_of units data = Inr (title @ concat (map LINE days))"
    using assms(1-4) bd loop
    by (simp add: forecast_text_of_def bind_err_def need_def cc title_def)
  have fst_eq: "map fst days = map fst days0"
    by (simp add: days_def ROW_def comp_def split_def)
  have 1: "length days = 5" using len0 by (simp add: days_def)
  have 2: "map fst days =
      take 5 (sorted_list_of_set {d. \<exists>e\<in>set es. date_of (get_dt_txt e) = Inr d})"
    using dates0 by (simp only: fst_eq)
  have 3: "sorted (map fst days)" using srt0 by (simp only: fst_eq)
  have 4: "distinct (map fst days)" using dst0 by (simp only: fst_eq)
  have 5: "\<forall>(d, t, desc, h) \<in> set days.
        \<exists>r\<in>set es.
          date_of (get_dt_txt r) = Inr d \<and>
          pick_representative (filter (\<lambda>e. date_of (get_dt_txt e) = Inr d) es) = Inr r \<and>
          ((\<exists>e\<in>set es. date_of (get_dt_txt e) = Inr d \<and> endswith (get_dt_txt e) ''12:00:00'')
             \<longrightarrow> endswith (get_dt_txt r) ''12:00:00'') \<and>
          entry_temp r = Some t \<and> entry_description r = Some desc \<and> entry_humidity r = Some h"
  proof (rule ballI)
    fix x assume "x \<in> set days"
    then obtain d r where dr: "(d, r) \<in> set days0" and x: "x = ROW (d, r)"
      by (auto simp: days_def)
    note e = each1[OF dr]
    from e have res: "r \<in> set es" by (rule conjunct1)
    note f = fields[OF res]
    have "date_of (get_dt_txt r) = Inr d \<and>
          pick_representative (filter (\<lambda>e. date_of (get_dt_txt e) = Inr d) es) = Inr r \<and>
          ((\<exists>e\<in>set es. date_of (get_dt_txt e) = Inr d \<and> endswith (get_dt_txt e) ''12:00:00'')
             \<longrightarrow> endswith (get_dt_txt r) ''12:00:00'') \<and>
          entry_temp r = Some (the (entry_temp r)) \<and>
          entry_description r = Some (the (entry_description r)) \<and>
          entry_humidity r = Some (the (entry_humidity r))"
      using e f by (intro conjI) (elim conjE, assumption)+
    with res have "\<exists>q\<in>set es. date_of (get_dt_txt q) = Inr d \<and>
          pick_representative (filter (\<lambda>e. date_of (get_dt_txt e) = Inr d) es) = Inr q \<and>
          ((\<exists>e\<in>set es. date_of (get_dt_txt e) = Inr d \<and> endswith (get_dt_txt e) ''12:00:00'')
             \<longrightarrow> endswith (get_dt_txt q) ''12:00:00'') \<and>
          entry_temp q = Some (the (entry_temp r)) \<and>
          entry_description q = Some (the (entry_description r)) \<and>
          entry_humidity q = Some (the (entry_humidity r))"
      by (rule rev_bexI)
    then show "case x of (d, t, desc, h) \<Rightarrow>
        \<exists>r\<in>set es.
          date_of (get_dt_txt r) = Inr d \<and>
          pick_representative (filter (\<lambda>e. date_of (get_dt_txt e) = Inr d) es) = Inr r \<and>
          ((\<exists>e\<in>set es. date_of (get_dt_txt e) = Inr d \<and> endswith (get_dt_txt e) ''12:00:00'')
             \<longrightarrow> endswith (get_dt_txt r) ''12:00:00'') \<and>
          entry_temp r = Some t \<and> entry_description r = Some desc \<and> entry_humidity r = Some h"
      by (simp only: x ROW_def prod.case)
  qed
  have 6: "\<forall>key prov arguments.
        key \<noteq> [] \<and> arguments ''units'' = Some units \<and>
        forecast_endpoint prov (request_params (arguments ''location'') key units) = Response data
        \<longrightarrow> get_weather_forecast (Some key) prov arguments = [title @ concat (map LINE days)]"
    using ftext by (simp add: get_weather_forecast_def Let_def)
  have 7: "title @ concat (map LINE days) = title @ concat (map LINE days)" by (rule refl)
  from 1 2 3 4 5 7 ftext 6
  have G: "length days = 5 \<and>
     map fst days = take 5 (sorted_list_of_set {d. \<exists>e\<in>set es. date_of (get_dt_txt e) = Inr d}) \<and>
     sorted (map fst days) \<and> distinct (map fst days) \<and>
     (\<forall>(d, t, desc, h) \<in> set days.
        \<exists>r\<in>set es.
          date_of (get_dt_txt r) = Inr d \<and>
          pick_representative (filter (\<lambda>e. date_of (get_dt_txt e) = Inr d) es) = Inr r \<and>
          ((\<exists>e\<in>set es. date_of (get_dt_txt e) = Inr d \<and> endswith (get_dt_txt e) ''12:00:00'')
             \<longrightarrow> endswith (get_dt_txt r) ''12:00:00'') \<and>
          entry_temp r = Some t \<and> entry_description r = Some desc \<and> entry_humidity r = Some h) \<and>
     title @ concat (map LINE days) = title @ concat (map LINE days) \<and>
     forecast_text_of units data = Inr (title @ concat (map LINE days)) \<and>
     (\<forall>key prov arguments.
        key \<noteq> [] \<and> arguments ''units'' = Some units \<and>
        forecast_endpoint prov (request_params (arguments ''location'') key units) = Response data
        \<longrightarrow> get_weather_forecast (Some key) prov arguments = [title @ concat (map LINE days)])"
    by (intro conjI)
  show ?thesis
    apply (rule exI[of _ days])
    apply (rule exI[of _ "title @ concat (map LINE days)"])
    using G unfolding LINE_def title_def append_assoc
    apply assumption
    done
qed

theorem forecast_seven_dates_witness:
  "city sample_forecast_data = Some \<lparr>name = Some ''Paris'', country = Some ''FR''\<rparr>
   \<and> entry_list sample_forecast_data = Some sample_week
   \<and> list_all complete_entry sample_week
   \<and> card ((\<lambda>e. date_of (get_dt_txt e)) ` set sample_week) = 7
   \<and> forecast_endpoint online_provider
         (request_params (Some ''Paris, FR'') ''key'' ''metric'') = Response sample_forecast_data
   \<and> (\<exists>days forecast_text.
        length days = 5 \<and>
        map fst days = [''2024-05-01'', ''2024-05-02'', ''2024-05-03'', ''2024-05-04'',
                        ''2024-05-05''] \<and>
        forecast_text =
          ''5-Day Weather Forecast for Paris, FR:'' @ [NL, NL]
          @ concat (map (\<lambda>(d, t, desc, h).
                        calendar @ '' '' @ d @ '': '' @ py_str t @ unit_symbol ''metric'' @ '', ''
                        @ py_title desc @ '', Humidity: '' @ py_str h @ ''%'' @ [NL]) days) \<and>
        forecast_text_of ''metric'' sample_forecast_data = Inr forecast_text \<and>
        get_weather_forecast (Some ''key'') online_provider
          (map_of [(''location'', ''Paris, FR''), (''units'', ''metric'')]) = [forecast_text])"
proof -
  let ?c = "\<lparr>name = Some ''Paris'', country = Some ''FR''\<rparr>"
  let ?args = "map_of [(''location'', ''Paris, FR''), (''units'', ''metric'')]"
  have c: "city sample_forecast_data = Some ?c" by (simp add: sample_forecast_data_def)
  have n: "name ?c = Some ''Paris''" by simp
  have k: "country ?c = Some ''FR''" by simp
  have l: "entry_list sample_forecast_data = Some sample_week"
    by (simp add: sample_forecast_data_def)
  have wf: "\<forall>e\<in>set sample_week. complete_entry e" by code_simp
  have h: "card ((\<lambda>e. date_of (get_dt_txt e)) ` set sample_week) = 7" by code_simp
  have dates: "take 5 (sorted_list_of_set
                 {d. \<exists>e\<in>set sample_week. date_of (get_dt_txt e) = Inr d})
      = [''2024-05-01'', ''2024-05-02'', ''2024-05-03'', ''2024-05-04'', ''2024-05-05'']"
  proof -
    have "{d. \<exists>e\<in>set sample_week. date_of (get_dt_txt e) = Inr d}
            = set (map entry_date sample_week)"
      by (auto simp: date_of_entry)
    moreover have "take 5 (sorted_list_of_set (set (map entry_date sample_week)))
      = [''2024-05-01'', ''2024-05-02'', ''2024-05-03'', ''2024-05-04'', ''2024-05-05'']"
      by code_simp
    ultimately show ?thesis by (simp only:)
  qed
  have p: "forecast_endpoint online_provider
         (request_params (Some ''Paris, FR'') ''key'' ''metric'') = Response sample_forecast_data"
    by (simp add: online_provider_def)
  from forecast_seven_dates[OF c n k l wf h, of "''metric''"]
  obtain days forecast_text where all:
    "length days = 5 \<and>
     map fst days = take 5 (sorted_list_of_set
                 {d. \<exists>e\<in>set sample_week. date_of (get_dt_txt e) = Inr d}) \<and>
     sorted (map fst days) \<and> distinct (map fst days) \<and>
     (\<forall>(d, t, desc, h) \<in> set days.
        \<exists>r\<in>set sample_week.
          date_of (get_dt_txt r) = Inr d \<and>
          pick_representative (filter (\<lambda>e. date_of (get_dt_txt e) = Inr d) sample_week) = Inr r \<and>
          ((\<exists>e\<in>set sample_week.
              date_of (get_dt_txt e) = Inr d \<and> endswith (get_dt_txt e) ''12:00:00'')
             \<longrightarrow> endswith (get_dt_txt r) ''12:00:00'') \<and>
          entry_temp r = Some t \<and> entry_description r = Some desc \<and> entry_humidity r = Some h) \<and>
     forecast_text =
       ''5-Day Weather Forecast for '' @ ''Paris'' @ '', '' @ ''FR'' @ '':'' @ [NL, NL]
       @ concat (map (\<lambda>(d, t, desc, h).
                        calendar @ '' '' @ d @ '': '' @ py_str t @ unit_symbol ''metric'' @ '', ''
                        @ py_title desc @ '', Humidity: '' @ py_str h @ ''%'' @ [NL]) days) \<and>
     forecast_text_of ''metric'' sample_forecast_data = Inr forecast_text \<and>
     (\<forall>key prov arguments.
        key \<noteq> [] \<and> arguments ''units'' = Some ''metric'' \<and>
        forecast_endpoint prov (request_params (arguments ''location'') key ''metric'')
          = Response sample_forecast_data
        \<longrightarrow> get_weather_forecast (Some key) prov arguments = [forecast_text])"
    by (elim exE) (rule that)
  note a1 = all[THEN conjunct1]
  note r1 = all[THEN conjunct2]
  note a2 = r1[THEN conjunct1]
  note r5 = r1[THEN conjunct2, THEN conjunct2, THEN conjunct2, THEN conjunct2]
  note a6 = r5[THEN conjunct1]
  note a7 = r5[THEN conjunct2, THEN conjunct1]
  note a8 = r5[THEN conjunct2, THEN conjunct2]
  have a: "''key'' \<noteq> [] \<and> ?args ''units'' = Some ''metric'' \<and>
        forecast_endpoint online_provider (request_params (?args ''location'') ''key'' ''metric'')
          = Response sample_forecast_data"
    using p by simp
  from a8[THEN spec, THEN spec, THEN spec, THEN mp, OF a]
  have g: "get_weather_forecast (Some ''key'') online_provider ?args = [forecast_text]" .
  from a6 have ttl: "forecast_text =
          ''5-Day Weather Forecast for Paris, FR:'' @ [NL, NL]
          @ concat (map (\<lambda>(d, t, desc, h).
                        calendar @ '' '' @ d @ '': '' @ py_str t @ unit_symbol ''metric'' @ '', ''
                        @ py_title desc @ '', Humidity: '' @ py_str h @ ''%'' @ [NL]) days)"
    by simp
  from a2 dates have dts: "map fst days =
     [''2024-05-01'', ''2024-05-02'', ''2024-05-03'', ''2024-05-04'', ''2024-05-05'']"
    by (simp only:)
  from a1 dts ttl a7 g have body: "length days = 5 \<and>
        map fst days = [''2024-05-01'', ''2024-05-02'', ''2024-05-03'', ''2024-05-04'',
                        ''2024-05-05''] \<and>
        forecast_text =
          ''5-Day Weather Forecast for Paris, FR:'' @ [NL, NL]
          @ concat (map (\<lambda>(d, t, desc, h).
                        calendar @ '' '' @ d @ '': '' @ py_str t @ unit_symbol ''metric'' @ '', ''
                        @ py_title desc @ '', Humidity: '' @ py_str h @ ''%'' @ [NL]) days) \<and>
        forecast_text_of ''metric'' sample_forecast_data = Inr forecast_text \<and>
        get_weather_forecast (Some ''key'') online_provider ?args = [forecast_text]"
    by (intro conjI)
  have ex: "\<exists>days forecast_text.
        length days = 5 \<and>
        map fst days = [''2024-05-01'', ''2024-05-02'', ''2024-05-03'', ''2024-05-04'',
                        ''2024-05-05''] \<and>
        forecast_text =
          ''5-Day Weather Forecast for Paris, FR:'' @ [NL, NL]
          @ concat (map (\<lambda>(d, t, desc, h).
                        calendar @ '' '' @ d @ '': '' @ py_str t @ unit_symbol ''metric'' @ '', ''
                        @ py_title desc @ '', Humidity: '' @ py_str h @ ''%'' @ [NL]) days) \<and>
        forecast_text_of ''metric'' sample_forecast_data = Inr forecast_text \<and>
        get_weather_forecast (Some ''key'') online_provider ?args = [forecast_text]"
    apply (rule exI[of _ days])
    apply (rule exI[of _ forecast_text])
    apply (rule body)
    done
  from wf have wl: "list_all complete_entry sample_week" by (simp only: list_all_iff)
  from c l wl h p ex show ?thesis by (intro conjI)
qed

subsection \<open>Advice Rule Engine\<close>

lemma split_once_nonempty: "split_once sep s \<noteq> []"
  by (induction sep s rule: split_once.induct) (auto split: list.splits)

lemma rule_tips_query: "rule_tips weather_data q = rule_tips weather_data []"
  by (simp add: rule_tips_def)

lemma rule_based_analysis_query:
  "rule_based_analysis weather_data q = rule_based_analysis weather_data []"
  by (simp add: rule_based_analysis_def rule_tips_query[of weather_data q])

lemma rule_tips_total: "\<exists>tips. rule_tips weather_data q = Inr tips"
  by (simp add: rule_tips_def Let_def bind_err_def item_last_def split_once_nonempty)

text \<open>
  C1. Rendering a report with the formatter and parsing the text with the Rule Engine does
  not recover the temperature and the feels-like value when the units are kelvin: the
  report with 278.15 K, feels like 275.0 K, humidity 85 %, wind 12.05 m/s and visibility
  2500 m is parsed to no temperature and no feels-like value (the parser cuts the number at
  the degree sign, which the kelvin symbol does not have), while humidity, wind speed and
  visibility are recovered. The same numbers in metric units are all recovered.
\<close>

theorem kelvin_round_trip_fails:
  "parsed_fields (formatted_response kelvin_report)
     = (None, None, Some 85, Some (Finite (1205 / 100)), Some 2500)
   \<and> parsed_fields (formatted_response (kelvin_report\<lparr>info_units := ''metric''\<rparr>))
     = (Some (Finite (27815 / 100)), Some (Finite 275), Some 85, Some (Finite (1205 / 100)),
        Some 2500)"
  by code_simp

text \<open>
  C6. For every report text and every user query the Rule Engine returns: the list of tips
  is computed without an exception and the result is that list, deduplicated and joined by
  line breaks. The empty report gives the empty output, a report whose fields cannot be
  parsed gives the empty output, and a report with only a humidity line gives the humidity
  tip alone. A field that is absent or cannot be parsed is \<open>None\<close> (the empty string for
  the conditions), and each block of tips is empty for such a field.
\<close>

theorem rule_engine_total:
  "(\<exists>tips. rule_tips weather_data user_query = Inr tips
           \<and> rule_based_analysis weather_data user_query = Inr (py_join [NL] (dedupe tips)))
   \<and> rule_based_analysis [] user_query = Inr []
   \<and> rule_based_analysis ''Temperature: warm(ish'' user_query = Inr []
   \<and> rule_based_analysis ''Humidity: 85%'' user_query = Inr tip_humid
   \<and> temperature_tips None = [] \<and> feels_tips None feels = [] \<and> feels_tips temp None = []
   \<and> humidity_tips None = [] \<and> wind_tips None = [] \<and> visibility_tips None = []
   \<and> precipitation_tips [] = [] \<and> summary_tips [] = []"
proof -
  obtain tips where t: "rule_tips weather_data user_query = Inr tips"
    using rule_tips_total by blast
  then have 1: "\<exists>tips. rule_tips weather_data user_query = Inr tips
           \<and> rule_based_analysis weather_data user_query = Inr (py_join [NL] (dedupe tips))"
    by (simp add: rule_based_analysis_def bind_err_def)
  have 2: "rule_based_analysis [] [] = Inr []" by code_simp
  have 3: "rule_based_analysis ''Temperature: warm(ish'' [] = Inr []" by code_simp
  have 4: "rule_based_analysis ''Humidity: 85%'' [] = Inr tip_humid" by code_simp
  have 5: "temperature_tips None = [] \<and> feels_tips None feels = [] \<and> feels_tips temp None = []
   \<and> humidity_tips None = [] \<and> wind_tips None = [] \<and> visibility_tips None = []
   \<and> precipitation_tips [] = [] \<and> summary_tips [] = []"
    by (simp add: temperature_tips_def feels_tips_def humidity_tips_def wind_tips_def
                  visibility_tips_def precipitation_tips_def summary_tips_def
             split: option.splits)
  from 1 2 3 4 5 show ?thesis
    by (simp only: rule_based_analysis_query[of _ user_query] simp_thms)
qed

text \<open>
  C7. For the report with temperature 5, feels like 2, conditions light rain, humidity
  85 %, wind speed 12 m/s and visibility 2500 m, rendered in metric units, the output of the
  Rule Engine is exactly these tips in this order: chilly, feels colder (the difference is
  exactly -3), rain, very humid, breezy, low visibility, and the summary, which reads
  "Conditions: Light rain." after its sign. This holds with the numbers printed as integers
  and as floats.
\<close>

theorem canonical_report_tips:
  "rule_based_analysis (formatted_response (canonical_report ''metric'')) user_query
     = Inr (py_join [NL] [tip_chilly, tip_feels_colder, tip_rain, tip_humid, tip_breezy,
                          tip_low_visibility, tip_summary ''light rain''])
   \<and> rule_based_analysis (formatted_response (canonical_report_float ''metric'')) user_query
     = Inr (py_join [NL] [tip_chilly, tip_feels_colder, tip_rain, tip_humid, tip_breezy,
                          tip_low_visibility, tip_summary ''light rain''])
   \<and> tip_summary ''light rain''
     = [CHR 0xE2, CHR 0x84, CHR 0xB9, CHR 0xEF, CHR 0xB8, CHR 0x8F] @ '' Conditions: Light rain.''"
proof -
  have 1: "rule_based_analysis (formatted_response (canonical_report ''metric'')) []
     = Inr (py_join [NL] [tip_chilly, tip_feels_colder, tip_rain, tip_humid, tip_breezy,
                          tip_low_visibility, tip_summary ''light rain''])"
    by code_simp
  have 2: "rule_based_analysis (formatted_response (canonical_report_float ''metric'')) []
     = Inr (py_join [NL] [tip_chilly, tip_feels_colder, tip_rain, tip_humid, tip_breezy,
                          tip_low_visibility, tip_summary ''light rain''])"
    by code_simp
  have 3: "tip_summary ''light rain''
     = [CHR 0xE2, CHR 0x84, CHR 0xB9, CHR 0xEF, CHR 0xB8, CHR 0x8F] @ '' Conditions: Light rain.''"
    by code_simp
  from 1 2 3 show ?thesis
    by (simp only: rule_based_analysis_query[of _ user_query] simp_thms)
qed

text \<open>
  C9. The output of the Rule Engine depends on the report text only: for every report and
  every two user queries the results are equal.
\<close>

theorem rule_engine_ignores_query:
  "rule_based_analysis weather_data q1 = rule_based_analysis weather_data q2"
  by (simp add: rule_based_analysis_def rule_tips_def)

subsection \<open>Analysis Cascade\<close>

lemma py_strip_empty: "py_strip [] = []"
  by (simp add: py_strip_def)

text \<open>
  C2. If the OpenAI key is unset or empty, the Hugging Face token is unset or empty, and the
  local-model host is set to the empty string, then for every report text and user query the
  cascade returns exactly what the Rule Engine returns on the same inputs, whatever the
  remote analysers would answer.
\<close>

theorem cascade_fallback:
  assumes "OPENAI_API_KEY env = None \<or> OPENAI_API_KEY env = Some []"
    and "HF_API_TOKEN env = None \<or> HF_API_TOKEN env = Some []"
    and "OLLAMA_HOST env = Some []"
  shows "analyze_weather_with_llm_async env an weather_data user_query
           = rule_based_analysis weather_data user_query"
  using assms
  by (auto simp: analyze_weather_with_llm_async_def Let_def getenv_def py_strip_empty
                 rstrip_chars_def)

theorem cascade_fallback_witness:
  "(OPENAI_API_KEY bare_environ = None \<or> OPENAI_API_KEY bare_environ = Some [])
   \<and> (HF_API_TOKEN bare_environ = None \<or> HF_API_TOKEN bare_environ = Some [])
   \<and> OLLAMA_HOST bare_environ = Some []
   \<and> analyze_weather_with_llm_async bare_environ eager_analysers
        (formatted_response (canonical_report ''metric'')) ''Should I wear a jacket?''
      = rule_based_analysis (formatted_response (canonical_report ''metric''))
          ''Should I wear a jacket?''"
proof -
  have a: "OPENAI_API_KEY bare_environ = None \<or> OPENAI_API_KEY bare_environ = Some []"
    by (simp add: bare_environ_def)
  have b: "HF_API_TOKEN bare_environ = None \<or> HF_API_TOKEN bare_environ = Some []"
    by (simp add: bare_environ_def)
  have c: "OLLAMA_HOST bare_environ = Some []"
    by (simp add: bare_environ_def)
  from a b c cascade_fallback[OF a b c, of eager_analysers
      "formatted_response (canonical_report ''metric'')" "''Should I wear a jacket?''"]
  show ?thesis by (intro conjI)
qed

subsection \<open>Tool Service\<close>

lemma handle_call_tool_unknown:
  assumes "tool_name \<noteq> ''get_weather''" and "tool_name \<noteq> ''get_forecast''"
  shows "handle_call_tool api_key prov tool_name arguments
           = Inl (ValueError (''Unknown tool: '' @ tool_name))"
  using assms by (simp add: handle_call_tool_def)

text \<open>
  C5. For every call-tool invocation whose tool name is neither get_weather nor get_forecast,
  the handler raises \<open>ValueError\<close> with the message "Unknown tool: " followed by the name,
  and what the service yields is a result, not a fault at the transport level: an error
  result whose content is the single text block with that message.
\<close>

theorem unknown_tool_in_band:
  assumes "tool_name \<noteq> ''get_weather''" and "tool_name \<noteq> ''get_forecast''"
  shows "handle_call_tool api_key prov tool_name arguments
           = Inl (ValueError (''Unknown tool: '' @ tool_name))
         \<and> call_tool (handle_call_tool api_key prov) tool_name arguments
           = Inr \<lparr>content = [''Unknown tool: '' @ tool_name], isError = True\<rparr>"
  using handle_call_tool_unknown[OF assms, of api_key prov arguments]
  by (simp add: call_tool_def)

theorem unknown_tool_in_band_witness:
  "''get_humidity'' \<noteq> ''get_weather'' \<and> ''get_humidity'' \<noteq> ''get_forecast''
   \<and> handle_call_tool (Some ''key'') offline_provider ''get_humidity'' sample_arguments
       = Inl (ValueError (''Unknown tool: '' @ ''get_humidity''))
   \<and> call_tool (handle_call_tool (Some ''key'') offline_provider) ''get_humidity''
         sample_arguments
       = Inr \<lparr>content = [''Unknown tool: '' @ ''get_humidity''], isError = True\<rparr>"
proof -
  have a: "''get_humidity'' \<noteq> ''get_weather''" by simp
  have b: "''get_humidity'' \<noteq> ''get_forecast''" by simp
  from a b unknown_tool_in_band[OF a b, of "Some ''key''" offline_provider sample_arguments]
  show ?thesis by blast
qed

text \<open>
  C10, as the code has it. The handlers do not check the units argument against the
  declared values. Every units string that is neither kelvin nor empty is sent to the
  provider unchanged as the units parameter; every units string other than metric and
  imperial is displayed with the symbol K, and every units string other than metric and
  kelvin with the wind unit mph; and when the provider answers, the handler returns the
  report formatted with the units it was given, whatever they are.
\<close>

theorem units_not_validated:
  "(units \<noteq> ''kelvin'' \<and> units \<noteq> []
      \<longrightarrow> map_of (request_params location key units) ''units'' = Some (Some units))
   \<and> (units \<noteq> ''metric'' \<and> units \<noteq> ''imperial'' \<longrightarrow> unit_symbol units = ''K'')
   \<and> (units \<noteq> ''metric'' \<and> units \<noteq> ''kelvin'' \<longrightarrow> wind_unit units = ''mph'')
   \<and> (key \<noteq> []
        \<and> weather_endpoint prov (request_params (Some loc) key units) = Response data
        \<and> extract_weather_info units data = Inr wi
      \<longrightarrow> get_current_weather (Some key) prov (map_of [(''location'', loc), (''units'', units)])
            = [formatted_response wi]
          \<and> info_units wi = units)"
  by (auto simp: request_params_def api_units_def unit_symbol_def wind_unit_def
                 get_current_weather_def Let_def extract_weather_info_def bind_err_def
           split: sum.splits)

theorem units_not_validated_witness:
  "(''celsius'' \<noteq> ''kelvin'' \<and> ''celsius'' \<noteq> [])
   \<and> map_of (request_params (Some ''Paris, FR'') ''key'' ''celsius'') ''units''
       = Some (Some ''celsius'')
   \<and> (''celsius'' \<noteq> ''metric'' \<and> ''celsius'' \<noteq> ''imperial'')
   \<and> unit_symbol ''celsius'' = ''K''
   \<and> (''celsius'' \<noteq> ''metric'' \<and> ''celsius'' \<noteq> ''kelvin'')
   \<and> wind_unit ''celsius'' = ''mph''
   \<and> ''key'' \<noteq> []
   \<and> weather_endpoint online_provider (request_params (Some ''Paris, FR'') ''key'' ''celsius'')
       = Response sample_current_data
   \<and> (\<exists>wi. extract_weather_info ''celsius'' sample_current_data = Inr wi
         \<and> get_current_weather (Some ''key'') online_provider
              (map_of [(''location'', ''Paris, FR''), (''units'', ''celsius'')])
            = [formatted_response wi]
         \<and> info_units wi = ''celsius'')"
proof -
  let ?wi = "\<lparr>info_location = ''Paris, FR'', info_temperature = JFloat 185 1,
              info_feels_like = JFloat 179 1, info_description = ''Clear Sky'',
              info_humidity = JInt 60, info_wind_speed = JFloat 31 1,
              info_pressure = JInt 1015, info_visibility = Some (JInt 10000),
              info_units = ''celsius''\<rparr>"
  have a: "''celsius'' \<noteq> ''kelvin'' \<and> ''celsius'' \<noteq> []" by simp
  have b: "''celsius'' \<noteq> ''metric'' \<and> ''celsius'' \<noteq> ''imperial''" by simp
  have c: "''celsius'' \<noteq> ''metric'' \<and> ''celsius'' \<noteq> ''kelvin''" by simp
  have k: "''key'' \<noteq> []" by simp
  have r: "weather_endpoint online_provider (request_params (Some ''Paris, FR'') ''key'' ''celsius'')
       = Response sample_current_data"
    by (simp add: online_provider_def)
  have e: "extract_weather_info ''celsius'' sample_current_data = Inr ?wi"
    by code_simp
  note t = units_not_validated[of "''celsius''" "Some ''Paris, FR''" "''key''" online_provider
              "''Paris, FR''" sample_current_data ?wi]
  from t a have 1: "map_of (request_params (Some ''Paris, FR'') ''key'' ''celsius'') ''units''
       = Some (Some ''celsius'')" by blast
  from t b have 2: "unit_symbol ''celsius'' = ''K''" by blast
  from t c have 3: "wind_unit ''celsius'' = ''mph''" by blast
  from t k r e have 4: "get_current_weather (Some ''key'') online_provider
              (map_of [(''location'', ''Paris, FR''), (''units'', ''celsius'')])
            = [formatted_response ?wi] \<and> info_units ?wi = ''celsius''" by blast
  from e 4 have 5: "\<exists>wi. extract_weather_info ''celsius'' sample_current_data = Inr wi
         \<and> get_current_weather (Some ''key'') online_provider
              (map_of [(''location'', ''Paris, FR''), (''units'', ''celsius'')])
            = [formatted_response wi]
         \<and> info_units wi = ''celsius''" by blast
  from a 1 b 2 c 3 k r 5 show ?thesis by blast
qed

text \<open>
  The claim C10 as stated fails at the empty units string: it is not kelvin, and no units
  parameter is sent for it.
\<close>

theorem empty_units_not_forwarded:
  "[] \<noteq> ''kelvin''
   \<and> map_of (request_params (Some ''Paris, FR'') ''key'' []) ''units'' = None"
  by (simp add: request_params_def api_units_def)

end
